theory Spec2Isabelle
  imports Main "HOL-Library.Sublist"
begin

section \<open>The store: auth.users, teacher_profiles, system_logs\<close>

text \<open>
  The three relations the synchronisation code reads and writes. A table is the list of
  its rows; the primary key is checked where a row is inserted. UUIDs are opaque keys,
  here natural numbers. The timestamp columns (\<open>created_at\<close>, \<open>updated_at\<close>) are
  left out: no function below reads them, and \<open>NOW()\<close> inside a JSON payload is the
  symbolic value \<open>JNow\<close>.

  \<^item> \<open>auth.users\<close> belongs to the identity provider; the code reads \<open>id\<close>,
    \<open>email\<close> (nullable there) and \<open>raw_user_meta_data\<close>, and the provider checks
    the credential.
  \<^item> \<open>teacher_profiles\<close> is the table of the base schema:
    \<open>id UUID PRIMARY KEY REFERENCES auth.users(id) ON DELETE CASCADE\<close>,
    \<open>full_name NOT NULL\<close>, \<open>email UNIQUE NOT NULL\<close>, and the nullable columns.
  \<^item> \<open>system_logs\<close> is the audit table: \<open>action NOT NULL\<close>, the rest nullable.
\<close>

type_synonym uuid = nat

record identity =
  uid :: uuid
  user_email :: "string option"
  encrypted_password :: string
  raw_user_meta_data :: "(string \<times> string) list"

record profile =
  pid :: uuid
  full_name :: string
  email :: string
  phone :: "string option"
  department :: "string option"
  designation :: "string option"
  specialization :: "string option"
  is_active :: bool

datatype json =
    JNull
  | JString string
  | JText "string option"
  | JUuid uuid
  | JInt nat
  | JNow
  | JRow profile
  | JArray "uuid list"

record log_row =
  action :: string
  user_id :: "uuid option"
  resource_type :: "string option"
  resource_id :: "uuid option"
  details :: "(string \<times> json) list"

record db =
  auth_users :: "identity list"
  teacher_profiles :: "profile list"
  system_logs :: "log_row list"

definition user_ids :: "db \<Rightarrow> uuid set" where
  "user_ids st = uid ` set (auth_users st)"

definition profile_ids :: "db \<Rightarrow> uuid set" where
  "profile_ids st = pid ` set (teacher_profiles st)"

subsection \<open>Statements that can fail\<close>

text \<open>
  Every SQL statement either completes or raises. Besides the constraints of
  \<open>teacher_profiles\<close>, which are checked below, a statement can be refused for a reason
  that lies outside the three relations: the base schema declares
  \<open>students.created_by\<close>, \<open>attendance.recorded_by\<close>, \<open>interventions.assigned_to\<close>,
  \<open>interventions.created_by\<close> and \<open>system_logs.user_id\<close> as
  \<open>REFERENCES auth.users(id)\<close> with no delete action, so a delete on \<open>auth.users\<close>
  is rejected while such a row refers to the identity; a role may lack a privilege; the
  store may be unreachable. All of these are one parameter, \<open>faults\<close>: given the state
  and the statement it answers with the error message, or \<open>None\<close> when the statement
  may run. A raised error that no handler catches aborts the enclosing top-level
  statement, whose effects are then discarded: such a statement returns \<open>Inl\<close> and the
  caller keeps the state it had.
\<close>

datatype stmt =
    InsertAuthUser identity
  | DeleteAuthUsers "uuid list"
  | InsertTeacherProfile profile
  | DeleteTeacherProfile uuid
  | InsertSystemLog log_row

datatype sql_error = SqlError string

type_synonym faults = "db \<Rightarrow> stmt \<Rightarrow> string option"

fun sqlerrm :: "sql_error \<Rightarrow> string" where
  "sqlerrm (SqlError m) = m"

definition no_faults :: faults where
  "no_faults st s = None"

text \<open>
  The one foreign key without a delete action that lies inside the three relations,
  \<open>system_logs.user_id UUID REFERENCES auth.users(id)\<close>, as a value of the parameter:
  a log row must name an existing identity (or none), and an identity that a log row
  names cannot be deleted.
\<close>

definition system_logs_fk :: faults where
  "system_logs_fk st s =
     (case s of
        InsertSystemLog r \<Rightarrow>
          (case user_id r of
             None \<Rightarrow> None
           | Some u \<Rightarrow>
               if u \<in> user_ids st then None
               else Some ''insert or update on table system_logs violates foreign key constraint system_logs_user_id_fkey'')
      | DeleteAuthUsers ids \<Rightarrow>
          if \<exists>r \<in> set (system_logs st). \<exists>u \<in> set ids. user_id r = Some u \<and> u \<in> user_ids st
          then Some ''update or delete on table users violates foreign key constraint system_logs_user_id_fkey on table system_logs''
          else None
      | _ \<Rightarrow> None)"

definition insert_into_system_logs :: "faults \<Rightarrow> log_row \<Rightarrow> db \<Rightarrow> sql_error + db" where
  "insert_into_system_logs f r st =
     (case f st (InsertSystemLog r) of
        Some m \<Rightarrow> Inl (SqlError m)
      | None \<Rightarrow> Inr (st\<lparr>system_logs := system_logs st @ [r]\<rparr>))"

fun for_each_row :: "('a \<Rightarrow> db \<Rightarrow> sql_error + db) \<Rightarrow> 'a list \<Rightarrow> db \<Rightarrow> sql_error + db" where
  "for_each_row g [] st = Inr st"
| "for_each_row g (r # rs) st =
     (case g r st of Inl e \<Rightarrow> Inl e | Inr st' \<Rightarrow> for_each_row g rs st')"

section \<open>database_sync_triggers.sql\<close>

subsection \<open>audit_profile_changes (trg_audit_profile_changes)\<close>

text \<open>
  \<open>AFTER INSERT OR UPDATE OR DELETE ON teacher_profiles FOR EACH ROW\<close>. The event
  carries \<open>TG_OP\<close> together with the rows \<open>OLD\<close> and \<open>NEW\<close> that the operation defines.
\<close>

datatype row_event = Inserted profile | Updated profile profile | Deleted profile

fun audit_profile_changes :: "faults \<Rightarrow> row_event \<Rightarrow> db \<Rightarrow> sql_error + db" where
  "audit_profile_changes f (Deleted OLD) st =
     insert_into_system_logs f
       \<lparr>action = ''PROFILE_DELETED'', user_id = Some (pid OLD),
        resource_type = Some ''teacher_profile'', resource_id = Some (pid OLD),
        details = [(''old_data'', JRow OLD), (''deleted_at'', JNow)]\<rparr> st"
| "audit_profile_changes f (Updated OLD NEW) st =
     insert_into_system_logs f
       \<lparr>action = ''PROFILE_UPDATED'', user_id = Some (pid NEW),
        resource_type = Some ''teacher_profile'', resource_id = Some (pid NEW),
        details = [(''old_data'', JRow OLD), (''new_data'', JRow NEW), (''updated_at'', JNow)]\<rparr> st"
| "audit_profile_changes f (Inserted NEW) st =
     insert_into_system_logs f
       \<lparr>action = ''PROFILE_CREATED'', user_id = Some (pid NEW),
        resource_type = Some ''teacher_profile'', resource_id = Some (pid NEW),
        details = [(''new_data'', JRow NEW), (''created_at'', JNow)]\<rparr> st"

subsection \<open>delete_auth_user_on_profile_delete (trg_delete_auth_on_profile_delete)\<close>

text \<open>
  \<open>DELETE FROM auth.users WHERE id = ANY(ids)\<close> on the rows of \<open>auth.users\<close> alone:
  the statement as it runs where no row of \<open>teacher_profiles\<close> carries one of the ids,
  so that \<open>ON DELETE CASCADE\<close> finds nothing. This is the situation inside the
  \<open>AFTER DELETE\<close> trigger: the rows with \<open>id = OLD.id\<close> have just been deleted.
  Deleting an id that is not there deletes no row and is no error.
\<close>

definition delete_auth_rows :: "faults \<Rightarrow> uuid list \<Rightarrow> db \<Rightarrow> sql_error + db" where
  "delete_auth_rows f ids st =
     (case f st (DeleteAuthUsers ids) of
        Some m \<Rightarrow> Inl (SqlError m)
      | None \<Rightarrow> Inr (st\<lparr>auth_users := filter (\<lambda>u. uid u \<notin> set ids) (auth_users st)\<rparr>))"

text \<open>
  The trigger function: set \<open>auth_user_id := OLD.id\<close>, insert the
  \<open>PROFILE_DELETED\<close> row, delete the identity, return. It has no \<open>EXCEPTION\<close> block.
\<close>

definition delete_auth_user_on_profile_delete :: "faults \<Rightarrow> profile \<Rightarrow> db \<Rightarrow> sql_error + db" where
  "delete_auth_user_on_profile_delete f OLD st =
     (let auth_user_id = pid OLD in
      case insert_into_system_logs f
             \<lparr>action = ''PROFILE_DELETED'', user_id = Some auth_user_id,
              resource_type = Some ''teacher_profile'', resource_id = Some (pid OLD),
              details = [(''profile_id'', JUuid (pid OLD)),
                         (''full_name'', JString (full_name OLD)),
                         (''department'', JText (department OLD)),
                         (''deleted_at'', JNow),
                         (''reason'', JString ''Profile manually deleted'')]\<rparr> st of
        Inl e \<Rightarrow> Inl e
      | Inr st1 \<Rightarrow> delete_auth_rows f [auth_user_id] st1)"

text \<open>
  \<open>log_bulk_profile_deletions\<close> is defined in the file but no \<open>CREATE TRIGGER\<close>
  attaches it, so it never runs.
\<close>

definition log_bulk_profile_deletions :: "faults \<Rightarrow> profile \<Rightarrow> db \<Rightarrow> sql_error + db" where
  "log_bulk_profile_deletions f OLD st =
     insert_into_system_logs f
       \<lparr>action = ''PROFILE_DELETED'', user_id = Some (pid OLD),
        resource_type = Some ''teacher_profile'', resource_id = Some (pid OLD),
        details = [(''profile_id'', JUuid (pid OLD)),
                   (''full_name'', JString (full_name OLD)),
                   (''deleted_at'', JNow),
                   (''trigger'', JString ''bulk_delete'')]\<rparr> st"

subsection \<open>Deleting rows of teacher_profiles\<close>

text \<open>
  The \<open>AFTER DELETE\<close> row triggers of \<open>teacher_profiles\<close>, in the order of their
  names: \<open>trg_audit_profile_changes\<close>, then \<open>trg_delete_auth_on_profile_delete\<close>.
\<close>

definition after_delete_triggers :: "faults \<Rightarrow> profile \<Rightarrow> db \<Rightarrow> sql_error + db" where
  "after_delete_triggers f OLD st =
     (case audit_profile_changes f (Deleted OLD) st of
        Inl e \<Rightarrow> Inl e
      | Inr st1 \<Rightarrow> delete_auth_user_on_profile_delete f OLD st1)"

text \<open>
  \<open>DELETE FROM teacher_profiles WHERE id = p\<close>: the matching rows are removed, then the
  row triggers run once for each removed row. With no matching row nothing runs.
\<close>

definition delete_from_teacher_profiles :: "faults \<Rightarrow> uuid \<Rightarrow> db \<Rightarrow> sql_error + db" where
  "delete_from_teacher_profiles f p st =
     (case f st (DeleteTeacherProfile p) of
        Some m \<Rightarrow> Inl (SqlError m)
      | None \<Rightarrow>
          for_each_row (after_delete_triggers f)
            (filter (\<lambda>r. pid r = p) (teacher_profiles st))
            (st\<lparr>teacher_profiles := filter (\<lambda>r. pid r \<noteq> p) (teacher_profiles st)\<rparr>))"

text \<open>
  \<open>DELETE FROM auth.users WHERE id = ANY(ids)\<close> in general: the identities are removed,
  and for each removed identity \<open>ON DELETE CASCADE\<close> deletes the rows of
  \<open>teacher_profiles\<close> with that id, whose \<open>AFTER DELETE\<close> triggers run as for any
  other delete.
\<close>

definition delete_from_auth_users :: "faults \<Rightarrow> uuid list \<Rightarrow> db \<Rightarrow> sql_error + db" where
  "delete_from_auth_users f ids st =
     (case f st (DeleteAuthUsers ids) of
        Some m \<Rightarrow> Inl (SqlError m)
      | None \<Rightarrow>
          (let gone = filter (\<lambda>u. uid u \<in> set ids) (auth_users st);
               cascaded = filter (\<lambda>r. pid r \<in> uid ` set gone) (teacher_profiles st)
           in for_each_row (after_delete_triggers f) cascaded
                (st\<lparr>auth_users := filter (\<lambda>u. uid u \<notin> set ids) (auth_users st),
                    teacher_profiles := filter (\<lambda>r. pid r \<notin> uid ` set gone) (teacher_profiles st)\<rparr>)))"

subsection \<open>orphaned_auth_users and cleanup_orphaned_auth_users\<close>

text \<open>
  The view: the identities for which the left join with \<open>teacher_profiles\<close> on
  \<open>au.id = tp.id\<close> finds no row.
\<close>

definition orphaned_auth_users :: "db \<Rightarrow> identity list" where
  "orphaned_auth_users st = filter (\<lambda>au. uid au \<notin> profile_ids st) (auth_users st)"

text \<open>
  \<open>SELECT ARRAY_AGG(au.id) INTO v_deleted_ids\<close> over the same join: \<open>ARRAY_AGG\<close> over
  no row is \<open>NULL\<close>, here \<open>None\<close>, and \<open>COALESCE(ARRAY_LENGTH(v_deleted_ids, 1), 0)\<close>
  is then 0.
\<close>

definition select_orphaned_ids :: "db \<Rightarrow> uuid list option" where
  "select_orphaned_ids st =
     (case orphaned_auth_users st of [] \<Rightarrow> None | au # aus \<Rightarrow> Some (map uid (au # aus)))"

definition array_length_or_zero :: "uuid list option \<Rightarrow> nat" where
  "array_length_or_zero a = (case a of None \<Rightarrow> 0 | Some ids \<Rightarrow> length ids)"

text \<open>Decimal digits of a count, for \<open>v_count::TEXT\<close> and for status codes.\<close>

fun show_nat :: "nat \<Rightarrow> string" where
  "show_nat n =
     (if n < 10 then [char_of (48 + n)]
      else show_nat (n div 10) @ [char_of (48 + n mod 10)])"

declare show_nat.simps [simp del]

definition cleanup_log_row :: "uuid list option \<Rightarrow> log_row" where
  "cleanup_log_row v_deleted_ids =
     \<lparr>action = ''CLEANUP_ORPHANED_USERS'', user_id = None,
      resource_type = Some ''system'', resource_id = None,
      details = [(''count'', JInt (array_length_or_zero v_deleted_ids)),
                 (''deleted_ids'', (case v_deleted_ids of None \<Rightarrow> JNull | Some ids \<Rightarrow> JArray ids)),
                 (''timestamp'', JNow)]\<rparr>"

text \<open>
  The function: one scan into \<open>v_deleted_ids\<close>, the log row, then one
  \<open>DELETE FROM auth.users WHERE id = ANY(v_deleted_ids)\<close> when the count is positive.
  It returns the row \<open>(v_count, 'Orphaned auth users cleaned up: ' || v_count)\<close>.
\<close>

definition cleanup_orphaned_auth_users :: "faults \<Rightarrow> db \<Rightarrow> sql_error + (db \<times> nat \<times> string)" where
  "cleanup_orphaned_auth_users f st =
     (let v_deleted_ids = select_orphaned_ids st;
          v_count = array_length_or_zero v_deleted_ids
      in case insert_into_system_logs f (cleanup_log_row v_deleted_ids) st of
           Inl e \<Rightarrow> Inl e
         | Inr st1 \<Rightarrow>
             (case (if v_count > 0
                    then delete_from_auth_users f (case v_deleted_ids of None \<Rightarrow> [] | Some ids \<Rightarrow> ids) st1
                    else Inr st1) of
                Inl e \<Rightarrow> Inl e
              | Inr st2 \<Rightarrow> Inr (st2, v_count, ''Orphaned auth users cleaned up: '' @ show_nat v_count)))"

text \<open>
  The same body when another transaction commits between the scan and the delete: under
  the store's default isolation each statement of the function sees what was committed
  before the statement began. \<open>w\<close> is the effect of what was committed in between.
\<close>

definition cleanup_with_write_between :: "faults \<Rightarrow> (db \<Rightarrow> db) \<Rightarrow> db \<Rightarrow> sql_error + (db \<times> nat \<times> string)" where
  "cleanup_with_write_between f w st =
     (let v_deleted_ids = select_orphaned_ids st;
          v_count = array_length_or_zero v_deleted_ids
      in case insert_into_system_logs f (cleanup_log_row v_deleted_ids) st of
           Inl e \<Rightarrow> Inl e
         | Inr st1 \<Rightarrow>
             (case (if v_count > 0
                    then delete_from_auth_users f (case v_deleted_ids of None \<Rightarrow> [] | Some ids \<Rightarrow> ids) (w st1)
                    else Inr (w st1)) of
                Inl e \<Rightarrow> Inl e
              | Inr st2 \<Rightarrow> Inr (st2, v_count, ''Orphaned auth users cleaned up: '' @ show_nat v_count)))"

section \<open>The base schema: profiles created at signup\<close>

text \<open>
  \<open>INSERT INTO teacher_profiles\<close> of a row whose \<open>NOT NULL\<close> columns are filled: the
  primary key, the \<open>UNIQUE\<close> email and the reference to \<open>auth.users\<close> are checked,
  the row is added, and the \<open>AFTER INSERT\<close> trigger \<open>trg_audit_profile_changes\<close> runs.
\<close>

definition insert_into_teacher_profiles :: "faults \<Rightarrow> profile \<Rightarrow> db \<Rightarrow> sql_error + db" where
  "insert_into_teacher_profiles f NEW st =
     (case f st (InsertTeacherProfile NEW) of
        Some m \<Rightarrow> Inl (SqlError m)
      | None \<Rightarrow>
          if pid NEW \<in> profile_ids st
          then Inl (SqlError ''duplicate key value violates unique constraint teacher_profiles_pkey'')
          else if email NEW \<in> email ` set (teacher_profiles st)
          then Inl (SqlError ''duplicate key value violates unique constraint teacher_profiles_email_key'')
          else if pid NEW \<notin> user_ids st
          then Inl (SqlError ''insert or update on table teacher_profiles violates foreign key constraint teacher_profiles_id_fkey'')
          else audit_profile_changes f (Inserted NEW)
                 (st\<lparr>teacher_profiles := teacher_profiles st @ [NEW]\<rparr>))"

text \<open>
  \<open>create_teacher_profile_on_signup\<close>, the \<open>AFTER INSERT\<close> row trigger
  \<open>on_auth_user_created\<close> of \<open>auth.users\<close>. It inserts
  \<open>(NEW.id, COALESCE(NEW.raw_user_meta_data->>'full_name', NEW.email), NEW.email, true)\<close>;
  a \<open>NULL\<close> in a \<open>NOT NULL\<close> column is an error of that insert. The block
  \<open>EXCEPTION WHEN OTHERS\<close> undoes what the failed insert did, raises the warning and
  returns \<open>NEW\<close>. The function returns the state and the warnings it raised.
\<close>

definition coalesce :: "'a option \<Rightarrow> 'a option \<Rightarrow> 'a option" where
  "coalesce a b = (case a of Some x \<Rightarrow> Some x | None \<Rightarrow> b)"

definition signup_insert :: "faults \<Rightarrow> identity \<Rightarrow> db \<Rightarrow> sql_error + db" where
  "signup_insert f NEW st =
     (case coalesce (map_of (raw_user_meta_data NEW) ''full_name'') (user_email NEW) of
        None \<Rightarrow> Inl (SqlError ''null value in column full_name of relation teacher_profiles violates not-null constraint'')
      | Some n \<Rightarrow>
          (case user_email NEW of
             None \<Rightarrow> Inl (SqlError ''null value in column email of relation teacher_profiles violates not-null constraint'')
           | Some e \<Rightarrow>
               insert_into_teacher_profiles f
                 \<lparr>pid = uid NEW, full_name = n, email = e, phone = None, department = None,
                  designation = None, specialization = None, is_active = True\<rparr> st))"

definition create_teacher_profile_on_signup :: "faults \<Rightarrow> identity \<Rightarrow> db \<Rightarrow> db \<times> string list" where
  "create_teacher_profile_on_signup f NEW st =
     (case signup_insert f NEW st of
        Inr st' \<Rightarrow> (st', [])
      | Inl e \<Rightarrow> (st, [''Failed to create teacher profile: '' @ sqlerrm e]))"

text \<open>
  \<open>INSERT INTO auth.users\<close>, as the identity provider does at signup: the primary key
  is checked, the row is added and the trigger above runs.
\<close>

definition insert_into_auth_users :: "faults \<Rightarrow> identity \<Rightarrow> db \<Rightarrow> sql_error + (db \<times> string list)" where
  "insert_into_auth_users f NEW st =
     (case f st (InsertAuthUser NEW) of
        Some m \<Rightarrow> Inl (SqlError m)
      | None \<Rightarrow>
          if uid NEW \<in> user_ids st
          then Inl (SqlError ''duplicate key value violates unique constraint users_pkey'')
          else Inr (create_teacher_profile_on_signup f NEW
                      (st\<lparr>auth_users := auth_users st @ [NEW]\<rparr>)))"

section \<open>The login verifier and the request guard\<close>

text \<open>
  The Python of the synchronisation guide: \<open>sign_in_with_profile_check\<close>
  (\<open>auth_service.py\<close>), the \<open>login\<close> endpoint (\<open>main_with_auth.py\<close>) and
  \<open>verify_user_profile\<close> (\<open>profile_middleware.py\<close>). An exception is a value: a plain
  \<open>Exception(msg)\<close>, which also stands for an exception of a client library, of which
  the code only ever reads \<open>str(e)\<close>, or an \<open>HTTPException(status_code, detail)\<close>, whose
  \<open>str\<close> is \<open>"{status_code}: {detail}"\<close>.
\<close>

datatype py_exception = PyException string | HTTPException nat string

fun str_exc :: "py_exception \<Rightarrow> string" where
  "str_exc (PyException m) = m"
| "str_exc (HTTPException c d) = show_nat c @ '': '' @ d"

text \<open>\<open>needle in haystack\<close> on strings.\<close>

fun occurs_in :: "string \<Rightarrow> string \<Rightarrow> bool" where
  "occurs_in n [] = (n = [])"
| "occurs_in n (c # cs) = (prefix n (c # cs) \<or> occurs_in n cs)"

text \<open>
  \<open>str.split()\<close> without a separator cuts at runs of whitespace and drops empty
  pieces; \<open>str.lower()\<close> is needed only for the comparison with \<open>"bearer"\<close>, which
  only the ASCII capitals can affect. A header value is a string of one-byte characters.
\<close>

definition is_space :: "char \<Rightarrow> bool" where
  "is_space c = (of_char c \<in> {9, 10, 11, 12, 13, 28, 29, 30, 31, 32, 133, 160 :: nat})"

fun split_from :: "string \<Rightarrow> string \<Rightarrow> string list" where
  "split_from w [] = (if w = [] then [] else [w])"
| "split_from w (c # cs) =
     (if is_space c then (if w = [] then split_from [] cs else w # split_from [] cs)
      else split_from (w @ [c]) cs)"

definition split :: "string \<Rightarrow> string list" where
  "split s = split_from [] s"

definition lower_char :: "char \<Rightarrow> char" where
  "lower_char c = (if 65 \<le> (of_char c :: nat) \<and> (of_char c :: nat) \<le> 90
                   then char_of ((of_char c :: nat) + 32) else c)"

definition lower :: "string \<Rightarrow> string" where
  "lower s = map lower_char s"

subsection \<open>What the code receives from the identity provider and the query layer\<close>

text \<open>
  \<open>supabase.auth.sign_in_with_password\<close> either raises or returns a response whose
  \<open>user\<close> and \<open>session\<close> may be \<open>None\<close>. A query ending in \<open>.single().execute()\<close>
  either raises or returns a response with its \<open>data\<close>. How the query layer reports
  that no row matched is not fixed by the code, which provides for both: \<open>data\<close> is
  empty, or an exception is raised.
\<close>

record auth_user =
  au_id :: uuid
  au_email :: string
  user_metadata :: "(string \<times> string) list"

record session =
  access_token :: string
  refresh_token :: string
  expires_at :: nat

datatype auth_outcome = AuthRaised string | AuthResponse "auth_user option" "session option"

datatype query_outcome = QueryRaised string | QueryData "profile option"

datatype no_rows_report = EmptyData | NoRowsError string

record user_dict =
  ud_id :: uuid
  ud_fields :: "(string \<times> string) list"
  ud_profile :: "profile option"

text \<open>
  The surroundings of the Python: the provider's credential check
  (\<open>sign_in_with_password\<close>), \<open>auth_service.get_user\<close>, which resolves a bearer token
  to a user or to nothing, the way the query layer reports no row, and the faults of
  the store.
\<close>

record env =
  sign_in_with_password :: "db \<Rightarrow> string \<Rightarrow> string \<Rightarrow> auth_outcome"
  get_user :: "string \<Rightarrow> user_dict option"
  single_no_rows :: no_rows_report
  store_faults :: faults

text \<open>
  \<open>table('teacher_profiles').select('*').eq('user_id', i).single().execute()\<close>. The
  column the Python calls \<open>user_id\<close> is the key of the profile: the trigger file notes
  \<open>id = user_id in teacher_profiles\<close>. The key is unique, so at most one row matches.
\<close>

definition select_single_profile :: "no_rows_report \<Rightarrow> db \<Rightarrow> uuid \<Rightarrow> query_outcome" where
  "select_single_profile nr st i =
     (case find (\<lambda>r. pid r = i) (teacher_profiles st) of
        Some r \<Rightarrow> QueryData (Some r)
      | None \<Rightarrow> (case nr of EmptyData \<Rightarrow> QueryData None | NoRowsError m \<Rightarrow> QueryRaised m))"

text \<open>
  \<open>supabase.auth.admin.delete_user(id)\<close>: the provider deletes the row of
  \<open>auth.users\<close>; an error of the store comes back as an exception.
\<close>

definition delete_user :: "faults \<Rightarrow> uuid \<Rightarrow> db \<Rightarrow> sql_error + db" where
  "delete_user f i st = delete_from_auth_users f [i] st"

subsection \<open>sign_in_with_profile_check\<close>

record login_user =
  lu_id :: uuid
  lu_email :: string
  lu_role :: string
  lu_full_name :: string

record auth_result =
  res_user :: login_user
  res_session :: session

text \<open>
  The body of the \<open>try\<close>. Deleting the identity is a call to the provider: its effect
  stays when the function raises afterwards, so the state is returned beside the result.
\<close>

definition sign_in_try :: "env \<Rightarrow> string \<Rightarrow> string \<Rightarrow> db \<Rightarrow> (py_exception + auth_result) \<times> db" where
  "sign_in_try e mail password st =
     (case sign_in_with_password e st mail password of
        AuthRaised m \<Rightarrow> (Inl (PyException m), st)
      | AuthResponse None s \<Rightarrow> (Inl (PyException ''Invalid credentials''), st)
      | AuthResponse (Some u) None \<Rightarrow> (Inl (PyException ''Invalid credentials''), st)
      | AuthResponse (Some u) (Some s) \<Rightarrow>
          (case select_single_profile (single_no_rows e) st (au_id u) of
             QueryRaised m \<Rightarrow> (Inl (PyException m), st)
           | QueryData None \<Rightarrow>
               (case delete_user (store_faults e) (au_id u) st of
                  Inl err \<Rightarrow> (Inl (PyException (sqlerrm err)), st)
                | Inr st' \<Rightarrow>
                    (Inl (PyException ''User profile has been deleted. Please contact administrator.''), st'))
           | QueryData (Some p) \<Rightarrow>
               (Inr \<lparr>res_user =
                       \<lparr>lu_id = au_id u, lu_email = au_email u,
                        lu_role = (case map_of (user_metadata u) ''role'' of
                                     None \<Rightarrow> ''teacher'' | Some r \<Rightarrow> r),
                        lu_full_name = full_name p\<rparr>,
                     res_session = s\<rparr>, st)))"

text \<open>\<open>except Exception as e: raise Exception(f"Sign in failed: {str(e)}")\<close>\<close>

definition sign_in_with_profile_check :: "env \<Rightarrow> string \<Rightarrow> string \<Rightarrow> db \<Rightarrow> (py_exception + auth_result) \<times> db" where
  "sign_in_with_profile_check e mail password st =
     (case sign_in_try e mail password st of
        (Inl ex, st') \<Rightarrow> (Inl (PyException (''Sign in failed: '' @ str_exc ex)), st')
      | (Inr r, st') \<Rightarrow> (Inr r, st'))"

subsection \<open>login\<close>

text \<open>
  \<open>POST /api/v1/auth/login\<close>: the result of \<open>sign_in_with_profile_check\<close>, or
  \<open>HTTPException(status_code=400, detail=str(e))\<close>.
\<close>

definition login :: "env \<Rightarrow> string \<Rightarrow> string \<Rightarrow> db \<Rightarrow> (py_exception + auth_result) \<times> db" where
  "login e mail password st =
     (case sign_in_with_profile_check e mail password st of
        (Inl ex, st') \<Rightarrow> (Inl (HTTPException 400 (str_exc ex)), st')
      | (Inr r, st') \<Rightarrow> (Inr \<lparr>res_user = res_user r, res_session = res_session r\<rparr>, st'))"

subsection \<open>verify_user_profile\<close>

text \<open>The second \<open>try\<close> of the guard: the profile lookup and what follows it.\<close>

definition profile_check_try :: "env \<Rightarrow> user_dict \<Rightarrow> db \<Rightarrow> py_exception + user_dict" where
  "profile_check_try e user st =
     (case select_single_profile (single_no_rows e) st (ud_id user) of
        QueryRaised m \<Rightarrow> Inl (PyException m)
      | QueryData None \<Rightarrow> Inl (HTTPException 403 ''Your profile has been deleted. Access denied.'')
      | QueryData (Some p) \<Rightarrow> Inr (user\<lparr>ud_profile := Some p\<rparr>))"

text \<open>
  The guard. \<open>authorization\<close> is the header, \<open>None\<close> when absent. The unpacking
  \<open>scheme, token = authorization.split()\<close> raises \<open>ValueError\<close> unless there are
  exactly two pieces; the \<open>HTTPException\<close> for a wrong scheme is not a \<open>ValueError\<close>
  and leaves the first \<open>try\<close>. The handler of the second \<open>try\<close> is
  \<open>except Exception as e\<close>: it receives whatever the body raised.
\<close>

definition verify_user_profile :: "env \<Rightarrow> string option \<Rightarrow> db \<Rightarrow> py_exception + user_dict" where
  "verify_user_profile e authorization st =
     (case authorization of
        None \<Rightarrow> Inl (HTTPException 401 ''Authorization header missing'')
      | Some a \<Rightarrow>
          if a = [] then Inl (HTTPException 401 ''Authorization header missing'')
          else
            (case split a of
               [scheme, token] \<Rightarrow>
                 if lower scheme \<noteq> ''bearer''
                 then Inl (HTTPException 401 ''Invalid authentication scheme'')
                 else
                   (case get_user e token of
                      None \<Rightarrow> Inl (HTTPException 401 ''Invalid or expired token'')
                    | Some user \<Rightarrow>
                        (case profile_check_try e user st of
                           Inr u \<Rightarrow> Inr u
                         | Inl ex \<Rightarrow>
                             if occurs_in ''No rows found'' (str_exc ex)
                             then Inl (HTTPException 403 ''Your profile has been deleted. Access denied.'')
                             else Inl (HTTPException 500 ''Database error'')))
             | _ \<Rightarrow> Inl (HTTPException 401 ''Invalid authorization header format'')))"

section \<open>Measures and examples\<close>

text \<open>The number of \<open>PROFILE_DELETED\<close> rows in the audit table.\<close>

definition profile_deleted_entries :: "db \<Rightarrow> nat" where
  "profile_deleted_entries st =
     length (filter (\<lambda>r. action r = ''PROFILE_DELETED'') (system_logs st))"

text \<open>
  The state after a top-level statement: what it produced when it completed, the state
  before it when it raised.
\<close>

definition state_after :: "sql_error + db \<Rightarrow> db \<Rightarrow> db" where
  "state_after r st = (case r of Inl e \<Rightarrow> st | Inr st' \<Rightarrow> st')"

text \<open>Two identities and a profile, for the examples.\<close>

definition alice :: identity where
  "alice = \<lparr>uid = 1, user_email = Some ''alice@x.com'', encrypted_password = ''secret-a'',
            raw_user_meta_data = [(''full_name'', ''Alice'')]\<rparr>"

definition bob :: identity where
  "bob = \<lparr>uid = 2, user_email = Some ''bob@x.com'', encrypted_password = ''secret-b'',
          raw_user_meta_data = []\<rparr>"

definition alice_profile :: profile where
  "alice_profile = \<lparr>pid = 1, full_name = ''Alice'', email = ''alice@x.com'', phone = None,
                    department = None, designation = None, specialization = None,
                    is_active = True\<rparr>"

definition bob_profile :: profile where
  "bob_profile = \<lparr>pid = 2, full_name = ''bob@x.com'', email = ''bob@x.com'', phone = None,
                  department = None, designation = None, specialization = None,
                  is_active = True\<rparr>"

definition empty_db :: db where
  "empty_db = \<lparr>auth_users = [], teacher_profiles = [], system_logs = []\<rparr>"

text \<open>Alice with her profile; Bob, an identity without a profile.\<close>

definition synced_db :: db where
  "synced_db = \<lparr>auth_users = [alice], teacher_profiles = [alice_profile], system_logs = []\<rparr>"

definition drifted_db :: db where
  "drifted_db = \<lparr>auth_users = [alice, bob], teacher_profiles = [alice_profile], system_logs = []\<rparr>"

text \<open>
  A fault that refuses every delete on \<open>auth.users\<close>, and nothing else.
\<close>

definition refuse_identity_delete :: faults where
  "refuse_identity_delete st s =
     (case s of DeleteAuthUsers ids \<Rightarrow> Some ''permission denied for table users'' | _ \<Rightarrow> None)"

text \<open>A fault that refuses every insert into \<open>teacher_profiles\<close>, and nothing else.\<close>

definition refuse_profile_insert :: faults where
  "refuse_profile_insert st s =
     (case s of InsertTeacherProfile r \<Rightarrow> Some ''could not connect to the store'' | _ \<Rightarrow> None)"

text \<open>
  One identity provider for the examples: the credential is compared with the stored
  one, a failed check returns a response without user and session, and a token is
  resolved by a fixed table.
\<close>

definition password_provider :: "db \<Rightarrow> string \<Rightarrow> string \<Rightarrow> auth_outcome" where
  "password_provider st mail password =
     (case find (\<lambda>u. user_email u = Some mail \<and> encrypted_password u = password) (auth_users st) of
        None \<Rightarrow> AuthResponse None None
      | Some u \<Rightarrow>
          AuthResponse
            (Some \<lparr>au_id = uid u, au_email = mail, user_metadata = raw_user_meta_data u\<rparr>)
            (Some \<lparr>access_token = ''access-'' @ mail, refresh_token = ''refresh-'' @ mail,
                   expires_at = 3600\<rparr>))"

definition token_table :: "string \<Rightarrow> user_dict option" where
  "token_table t =
     (if t = ''access-alice@x.com''
      then Some \<lparr>ud_id = 1, ud_fields = [(''email'', ''alice@x.com'')], ud_profile = None\<rparr>
      else if t = ''access-bob@x.com''
      then Some \<lparr>ud_id = 2, ud_fields = [(''email'', ''bob@x.com'')], ud_profile = None\<rparr>
      else None)"

definition example_env :: "no_rows_report \<Rightarrow> faults \<Rightarrow> env" where
  "example_env nr f =
     \<lparr>sign_in_with_password = password_provider, get_user = token_table,
      single_no_rows = nr, store_faults = f\<rparr>"

text \<open>Deleting the same profile twice, each delete a statement of its own.\<close>

definition delete_profile_twice :: "faults \<Rightarrow> uuid \<Rightarrow> db \<Rightarrow> db" where
  "delete_profile_twice f p st =
     (let st1 = state_after (delete_from_teacher_profiles f p st) st
      in state_after (delete_from_teacher_profiles f p st1) st1)"


text \<open>
  Carol, a third identity; Bob and Carol both without a profile; and two transactions
  that may commit while the cleanup runs: one inserts Bob's profile, the other is Carol's
  signup. Both run on the store with the foreign key of \<open>system_logs.user_id\<close>.
\<close>

definition carol :: identity where
  "carol = \<lparr>uid = 3, user_email = Some ''carol@x.com'', encrypted_password = ''secret-c'',
            raw_user_meta_data = []\<rparr>"

definition two_orphans_db :: db where
  "two_orphans_db = \<lparr>auth_users = [bob, carol], teacher_profiles = [], system_logs = []\<rparr>"

definition bob_profile_arrives :: "db \<Rightarrow> db" where
  "bob_profile_arrives st = state_after (insert_into_teacher_profiles system_logs_fk bob_profile st) st"

definition carol_signs_up :: "db \<Rightarrow> db" where
  "carol_signs_up st =
     (case insert_into_auth_users system_logs_fk carol st of
        Inl e \<Rightarrow> st
      | Inr (st', warnings) \<Rightarrow> st')"

text \<open>
  Alice with her profile and Bob without one, as in \<open>drifted_db\<close>, but a row of
  \<open>system_logs\<close> from Bob's earlier activity still names him: his profile was deleted
  while no trigger removed the identity, the situation the synchronisation guide starts
  from.
\<close>

definition bob_named_in_log_db :: db where
  "bob_named_in_log_db =
     \<lparr>auth_users = [alice, bob], teacher_profiles = [alice_profile],
      system_logs = [\<lparr>action = ''STUDENT_CREATED'', user_id = Some 2,
                      resource_type = Some ''student'', resource_id = None,
                      details = []\<rparr>]\<rparr>"

text \<open>
  A provider that raises when the credential check fails, instead of returning a
  response without user and session.
\<close>

definition raising_password_provider :: "db \<Rightarrow> string \<Rightarrow> string \<Rightarrow> auth_outcome" where
  "raising_password_provider st mail password =
     (case password_provider st mail password of
        AuthResponse (Some u) (Some s) \<Rightarrow> AuthResponse (Some u) (Some s)
      | _ \<Rightarrow> AuthRaised ''Invalid login credentials'')"

definition raising_env :: "no_rows_report \<Rightarrow> faults \<Rightarrow> env" where
  "raising_env nr f =
     \<lparr>sign_in_with_password = raising_password_provider, get_user = token_table,
      single_no_rows = nr, store_faults = f\<rparr>"

section \<open>The cleanup as the specification words its mitigation\<close>

text \<open>
  The specification asks for a recheck of the profile immediately before each delete:
  read-then-delete for each id, not delete-by-precomputed-list. This is that job, written
  from those words for comparison with \<open>cleanup_orphaned_auth_users\<close>: the scan and the
  log row are the same, and then each scanned id is looked up again in the state of that
  moment and its identity deleted only if it still has no profile.
\<close>

fun recheck_then_delete :: "faults \<Rightarrow> uuid list \<Rightarrow> db \<Rightarrow> sql_error + db" where
  "recheck_then_delete f [] st = Inr st"
| "recheck_then_delete f (i # ids) st =
     (if i \<in> profile_ids st then recheck_then_delete f ids st
      else (case delete_from_auth_users f [i] st of
              Inl e \<Rightarrow> Inl e
            | Inr st' \<Rightarrow> recheck_then_delete f ids st'))"

definition cleanup_rechecking_each_id :: "faults \<Rightarrow> (db \<Rightarrow> db) \<Rightarrow> db \<Rightarrow> sql_error + (db \<times> nat \<times> string)" where
  "cleanup_rechecking_each_id f w st =
     (let v_deleted_ids = select_orphaned_ids st;
          v_count = array_length_or_zero v_deleted_ids
      in case insert_into_system_logs f (cleanup_log_row v_deleted_ids) st of
           Inl e \<Rightarrow> Inl e
         | Inr st1 \<Rightarrow>
             (case recheck_then_delete f (case v_deleted_ids of None \<Rightarrow> [] | Some ids \<Rightarrow> ids) (w st1) of
                Inl e \<Rightarrow> Inl e
              | Inr st2 \<Rightarrow> Inr (st2, v_count, ''Orphaned auth users cleaned up: '' @ show_nat v_count)))"

section \<open>The operations on the two stores\<close>





section \<open>Effects of the statements\<close>

lemma insert_into_system_logs_Inr:
  "insert_into_system_logs f r st = Inr st' \<Longrightarrow>
     st' = st\<lparr>system_logs := system_logs st @ [r]\<rparr>"
  by (auto simp: insert_into_system_logs_def split: option.splits)

lemma after_delete_triggers_Inr:
  assumes "after_delete_triggers f OLD st = Inr st'"
  shows "teacher_profiles st' = teacher_profiles st"
    and "auth_users st' = filter (\<lambda>u. uid u \<noteq> pid OLD) (auth_users st)"
    and "map action (system_logs st') =
           map action (system_logs st) @ [''PROFILE_DELETED'', ''PROFILE_DELETED'']"
  using assms
  by (auto simp: after_delete_triggers_def delete_auth_user_on_profile_delete_def
        delete_auth_rows_def Let_def
      split: sum.splits option.splits dest!: insert_into_system_logs_Inr)

lemma for_each_row_triggers_Inr:
  "for_each_row (after_delete_triggers f) rows st = Inr st' \<Longrightarrow>
     teacher_profiles st' = teacher_profiles st \<and>
     auth_users st' = filter (\<lambda>u. uid u \<notin> pid ` set rows) (auth_users st) \<and>
     map action (system_logs st') =
       map action (system_logs st) @ replicate (2 * length rows) ''PROFILE_DELETED''"
proof (induction rows arbitrary: st)
  case Nil
  then show ?case by simp
next
  case (Cons r rows)
  from Cons.prems obtain st1 where
    s1: "after_delete_triggers f r st = Inr st1" and
    s2: "for_each_row (after_delete_triggers f) rows st1 = Inr st'"
    by (auto split: sum.splits)
  note a = after_delete_triggers_Inr [OF s1]
  note b = Cons.IH [OF s2]
  have "filter (\<lambda>u. uid u \<notin> pid ` set rows) (filter (\<lambda>u. uid u \<noteq> pid r) (auth_users st))
        = filter (\<lambda>u. uid u \<notin> pid ` set (r # rows)) (auth_users st)"
    by (auto intro: filter_cong)
  with a b show ?case by (simp add: replicate_append_same)
qed

lemma delete_from_auth_users_no_profile:
  assumes "\<forall>i \<in> set ids. i \<notin> profile_ids st"
  shows "delete_from_auth_users f ids st = delete_auth_rows f ids st"
proof -
  have keep: "filter (\<lambda>r. pid r \<notin> uid ` set (filter (\<lambda>u. uid u \<in> set ids) (auth_users st)))
                (teacher_profiles st) = teacher_profiles st"
    using assms by (auto simp: profile_ids_def filter_id_conv)
  have none: "filter (\<lambda>r. pid r \<in> uid ` set (filter (\<lambda>u. uid u \<in> set ids) (auth_users st)))
                (teacher_profiles st) = []"
    using assms by (auto simp: profile_ids_def filter_empty_conv)
  show ?thesis
    unfolding delete_from_auth_users_def delete_auth_rows_def Let_def none keep
    by (simp split: option.splits)
qed

lemma filter_absorb:
  "(\<And>x. Q x \<Longrightarrow> P x) \<Longrightarrow> filter P (filter Q xs) = filter Q xs"
  by (induction xs) auto

lemma delete_from_teacher_profiles_Inr:
  assumes "delete_from_teacher_profiles f p st = Inr st'"
  shows "teacher_profiles st' = filter (\<lambda>r. pid r \<noteq> p) (teacher_profiles st)"
    and "auth_users st' =
           (if p \<in> profile_ids st then filter (\<lambda>u. uid u \<noteq> p) (auth_users st) else auth_users st)"
    and "map action (system_logs st') =
           map action (system_logs st) @
           replicate (2 * length (filter (\<lambda>r. pid r = p) (teacher_profiles st))) ''PROFILE_DELETED''"
proof -
  let ?rows = "filter (\<lambda>r. pid r = p) (teacher_profiles st)"
  let ?st0 = "st\<lparr>teacher_profiles := filter (\<lambda>r. pid r \<noteq> p) (teacher_profiles st)\<rparr>"
  from assms have run: "for_each_row (after_delete_triggers f) ?rows ?st0 = Inr st'"
    by (auto simp: delete_from_teacher_profiles_def split: option.splits)
  note eff = for_each_row_triggers_Inr [OF run]
  from eff show "teacher_profiles st' = filter (\<lambda>r. pid r \<noteq> p) (teacher_profiles st)"
    by simp
  from eff show "map action (system_logs st') =
           map action (system_logs st) @ replicate (2 * length ?rows) ''PROFILE_DELETED''"
    by simp
  have img: "pid ` set ?rows = (if p \<in> profile_ids st then {p} else {})"
    by (auto simp: profile_ids_def)
  from eff have "auth_users st' = filter (\<lambda>u. uid u \<notin> pid ` set ?rows) (auth_users st)"
    by simp
  then show "auth_users st' =
           (if p \<in> profile_ids st then filter (\<lambda>u. uid u \<noteq> p) (auth_users st) else auth_users st)"
    unfolding img by simp
qed

lemma delete_from_auth_users_Inr:
  assumes "delete_from_auth_users f ids st = Inr st'"
  shows "auth_users st' = filter (\<lambda>u. uid u \<notin> set ids) (auth_users st)"
    and "teacher_profiles st' =
           filter (\<lambda>r. pid r \<notin> set ids \<inter> user_ids st) (teacher_profiles st)"
proof -
  let ?gone = "filter (\<lambda>u. uid u \<in> set ids) (auth_users st)"
  let ?casc = "filter (\<lambda>r. pid r \<in> uid ` set ?gone) (teacher_profiles st)"
  let ?st0 = "st\<lparr>auth_users := filter (\<lambda>u. uid u \<notin> set ids) (auth_users st),
                  teacher_profiles := filter (\<lambda>r. pid r \<notin> uid ` set ?gone) (teacher_profiles st)\<rparr>"
  from assms have run: "for_each_row (after_delete_triggers f) ?casc ?st0 = Inr st'"
    by (auto simp: delete_from_auth_users_def Let_def split: option.splits)
  note eff = for_each_row_triggers_Inr [OF run]
  have g: "uid ` set ?gone = set ids \<inter> user_ids st"
    by (auto simp: user_ids_def)
  from eff have "teacher_profiles st' = teacher_profiles ?st0" by blast
  also have "\<dots> = filter (\<lambda>r. pid r \<notin> uid ` set ?gone) (teacher_profiles st)"
    by (simp del: set_filter)
  also have "\<dots> = filter (\<lambda>r. pid r \<notin> set ids \<inter> user_ids st) (teacher_profiles st)"
    by (simp only: g)
  finally show "teacher_profiles st' =
           filter (\<lambda>r. pid r \<notin> set ids \<inter> user_ids st) (teacher_profiles st)" .
  have sub: "pid ` set ?casc \<subseteq> set ids"
    by auto
  from eff have "auth_users st' = filter (\<lambda>u. uid u \<notin> pid ` set ?casc) (auth_users ?st0)"
    by blast
  also have "\<dots> = filter (\<lambda>u. uid u \<notin> pid ` set ?casc)
                      (filter (\<lambda>u. uid u \<notin> set ids) (auth_users st))"
    by (simp del: set_filter)
  also have "\<dots> = filter (\<lambda>u. uid u \<notin> set ids) (auth_users st)"
  proof (rule filter_absorb)
    fix u :: identity assume "uid u \<notin> set ids"
    then show "uid u \<notin> pid ` set ?casc" using sub by blast
  qed
  finally show "auth_users st' = filter (\<lambda>u. uid u \<notin> set ids) (auth_users st)" .
qed



lemma hook_aborts_when_identity_delete_fails:
  assumes "\<forall>s. f s (DeleteAuthUsers [pid OLD]) \<noteq> None"
  shows "\<exists>e. delete_auth_user_on_profile_delete f OLD st = Inl e"
proof (cases "insert_into_system_logs f
             \<lparr>action = ''PROFILE_DELETED'', user_id = Some (pid OLD),
              resource_type = Some ''teacher_profile'', resource_id = Some (pid OLD),
              details = [(''profile_id'', JUuid (pid OLD)),
                         (''full_name'', JString (full_name OLD)),
                         (''department'', JText (department OLD)),
                         (''deleted_at'', JNow),
                         (''reason'', JString ''Profile manually deleted'')]\<rparr> st")
  case (Inl e)
  then show ?thesis by (simp add: delete_auth_user_on_profile_delete_def Let_def)
next
  case (Inr st1)
  from assms obtain m where "f st1 (DeleteAuthUsers [pid OLD]) = Some m" by auto
  with Inr show ?thesis
    by (simp add: delete_auth_user_on_profile_delete_def Let_def delete_auth_rows_def)
qed

lemma triggers_abort_when_identity_delete_fails:
  assumes "\<forall>s. f s (DeleteAuthUsers [pid OLD]) \<noteq> None"
  shows "\<exists>e. after_delete_triggers f OLD st = Inl e"
proof (cases "audit_profile_changes f (Deleted OLD) st")
  case (Inl e)
  then show ?thesis by (simp add: after_delete_triggers_def)
next
  case (Inr st1)
  from hook_aborts_when_identity_delete_fails [of f OLD st1] assms
  obtain e where "delete_auth_user_on_profile_delete f OLD st1 = Inl e" by blast
  with Inr show ?thesis
    by (simp add: after_delete_triggers_def)
qed

lemma profile_deleted_entries_map:
  "profile_deleted_entries st =
     length (filter (\<lambda>a. a = ''PROFILE_DELETED'') (map action (system_logs st)))"
  by (simp add: profile_deleted_entries_def filter_map comp_def)

lemma one_row_per_key:
  "distinct (map pid rows) \<Longrightarrow> p \<in> pid ` set rows \<Longrightarrow>
     length (filter (\<lambda>r. pid r = p) rows) = 1"
proof (induction rows)
  case Nil
  then show ?case by simp
next
  case (Cons r rows)
  show ?case
  proof (cases "pid r = p")
    case True
    with Cons.prems have "p \<notin> pid ` set rows" by auto
    then have "filter (\<lambda>r. pid r = p) rows = []"
      by (auto simp: filter_empty_conv)
    with True show ?thesis by simp
  next
    case False
    with Cons show ?thesis by auto
  qed
qed

lemma cleanup_with_no_write:
  "cleanup_with_write_between f (\<lambda>s. s) st = cleanup_orphaned_auth_users f st"
  by (simp add: cleanup_with_write_between_def cleanup_orphaned_auth_users_def)

lemma select_orphaned_ids_set:
  "(case select_orphaned_ids st of None \<Rightarrow> [] | Some ids \<Rightarrow> ids) = map uid (orphaned_auth_users st)"
  by (simp add: select_orphaned_ids_def split: list.splits)

lemma array_length_orphaned:
  "array_length_or_zero (select_orphaned_ids st) = length (orphaned_auth_users st)"
  by (simp add: select_orphaned_ids_def array_length_or_zero_def split: list.splits)

lemma orphaned_ids_set:
  "set (map uid (orphaned_auth_users st)) = user_ids st - profile_ids st"
  by (auto simp: orphaned_auth_users_def user_ids_def)

lemma cleanup_with_write_between_Inr:
  assumes "cleanup_with_write_between f w st = Inr (st', n, m)"
  shows "\<exists>st1. insert_into_system_logs f (cleanup_log_row (select_orphaned_ids st)) st = Inr st1 \<and>
           auth_users st' =
             filter (\<lambda>u. uid u \<notin> user_ids st - profile_ids st) (auth_users (w st1)) \<and>
           teacher_profiles st' =
             filter (\<lambda>r. pid r \<notin> (user_ids st - profile_ids st) \<inter> user_ids (w st1))
               (teacher_profiles (w st1))"
proof (cases "insert_into_system_logs f (cleanup_log_row (select_orphaned_ids st)) st")
  case (Inl e)
  with assms show ?thesis
    by (simp add: cleanup_with_write_between_def Let_def)
next
  case (Inr st1)
  let ?ids = "map uid (orphaned_auth_users st)"
  show ?thesis
  proof (cases "orphaned_auth_users st = []")
    case True
    then have none: "user_ids st - profile_ids st = {}"
      using orphaned_ids_set [of st] by simp
    from True assms Inr have "st' = w st1"
      by (simp add: cleanup_with_write_between_def Let_def array_length_orphaned)
    with Inr show ?thesis unfolding none by simp
  next
    case False
    with assms Inr have del: "delete_from_auth_users f ?ids (w st1) = Inr st'"
      by (simp add: cleanup_with_write_between_def Let_def array_length_orphaned
            select_orphaned_ids_set split: sum.splits)
    note eff = delete_from_auth_users_Inr [OF del]
    from eff Inr show ?thesis
      by (simp only: orphaned_ids_set) simp
  qed
qed

section \<open>Effects of the login verifier\<close>

lemma find_profile_None:
  "find (\<lambda>r. pid r = i) (teacher_profiles st) = None \<longleftrightarrow> i \<notin> profile_ids st"
  by (auto simp: find_None_iff profile_ids_def)

lemma find_profile_Some:
  "find (\<lambda>r. pid r = i) rows = Some p \<Longrightarrow> p \<in> set rows \<and> pid p = i"
  by (induction rows) (auto split: if_splits)

lemma select_single_profile_absent:
  "i \<notin> profile_ids st \<Longrightarrow>
     select_single_profile nr st i =
       (case nr of EmptyData \<Rightarrow> QueryData None | NoRowsError m \<Rightarrow> QueryRaised m)"
proof -
  assume "i \<notin> profile_ids st"
  then have "find (\<lambda>r. pid r = i) (teacher_profiles st) = None"
    by (simp add: find_profile_None)
  then show ?thesis by (simp add: select_single_profile_def)
qed

lemma select_single_profile_data:
  "select_single_profile nr st i = QueryData (Some p) \<Longrightarrow> p \<in> set (teacher_profiles st) \<and> pid p = i"
  by (auto simp: select_single_profile_def split: option.splits no_rows_report.splits
      dest: find_profile_Some)

lemma sign_in_try_Inr:
  assumes "sign_in_try e mail pw st = (Inr r, st')"
  shows "\<exists>u s p. sign_in_with_password e st mail pw = AuthResponse (Some u) (Some s) \<and>
           select_single_profile (single_no_rows e) st (au_id u) = QueryData (Some p) \<and>
           res_session r = s \<and> lu_id (res_user r) = au_id u \<and>
           lu_full_name (res_user r) = full_name p \<and> st' = st"
proof (cases "sign_in_with_password e st mail pw")
  case (AuthRaised m)
  with assms show ?thesis by (simp add: sign_in_try_def)
next
  case (AuthResponse uo so)
  show ?thesis
  proof (cases uo)
    case None
    with AuthResponse assms show ?thesis by (simp add: sign_in_try_def)
  next
    case (Some u)
    note u = this
    show ?thesis
    proof (cases so)
      case None
      with u AuthResponse assms show ?thesis by (simp add: sign_in_try_def)
    next
      case (Some s)
      with u AuthResponse assms show ?thesis
        by (auto simp: sign_in_try_def split: query_outcome.splits option.splits sum.splits)
    qed
  qed
qed

lemma sign_in_try_no_profile:
  assumes "sign_in_with_password e st mail pw = AuthResponse (Some u) (Some s)"
    and "au_id u \<notin> profile_ids st"
  shows "\<exists>ex st'. sign_in_try e mail pw st = (Inl ex, st')"
  using assms
  by (cases "single_no_rows e")
     (auto simp: sign_in_try_def select_single_profile_absent split: sum.splits)

lemma sign_in_try_self_heal:
  assumes "sign_in_with_password e st mail pw = AuthResponse (Some u) (Some s)"
    and "au_id u \<notin> profile_ids st"
    and "single_no_rows e = EmptyData"
    and "store_faults e st (DeleteAuthUsers [au_id u]) = None"
  shows "sign_in_try e mail pw st =
           (Inl (PyException ''User profile has been deleted. Please contact administrator.''),
            st\<lparr>auth_users := filter (\<lambda>x. uid x \<noteq> au_id u) (auth_users st)\<rparr>)"
proof -
  have "\<forall>i \<in> set [au_id u]. i \<notin> profile_ids st" using assms(2) by simp
  from delete_from_auth_users_no_profile [OF this, of "store_faults e"] assms(4)
  have "delete_user (store_faults e) (au_id u) st =
          Inr (st\<lparr>auth_users := filter (\<lambda>x. uid x \<noteq> au_id u) (auth_users st)\<rparr>)"
    by (simp add: delete_user_def delete_auth_rows_def)
  with assms(1,2,3) show ?thesis
    by (simp add: sign_in_try_def select_single_profile_absent)
qed

lemma sign_in_try_bad_credential:
  assumes "sign_in_with_password e st mail pw = AuthResponse uo so"
    and "uo = None \<or> so = None"
  shows "sign_in_try e mail pw st = (Inl (PyException ''Invalid credentials''), st)"
  using assms by (cases uo; cases so) (auto simp: sign_in_try_def)

section \<open>Effects of the inserts\<close>

lemma audit_profile_changes_Inr:
  "audit_profile_changes f ev st = Inr st' \<Longrightarrow>
     auth_users st' = auth_users st \<and> teacher_profiles st' = teacher_profiles st"
  by (cases ev) (auto dest!: insert_into_system_logs_Inr)

lemma insert_into_teacher_profiles_Inr:
  assumes "insert_into_teacher_profiles f NEW st = Inr st'"
  shows "auth_users st' = auth_users st"
    and "teacher_profiles st' = teacher_profiles st @ [NEW]"
    and "pid NEW \<in> user_ids st"
proof -
  from assms have
    fk: "pid NEW \<in> user_ids st" and
    au: "audit_profile_changes f (Inserted NEW)
           (st\<lparr>teacher_profiles := teacher_profiles st @ [NEW]\<rparr>) = Inr st'"
    by (auto simp: insert_into_teacher_profiles_def split: option.splits if_splits)
  from audit_profile_changes_Inr [OF au]
  show "auth_users st' = auth_users st" "teacher_profiles st' = teacher_profiles st @ [NEW]"
    by simp_all
  from fk show "pid NEW \<in> user_ids st" .
qed


lemma signup_insert_Inr:
  assumes "signup_insert f NEW st = Inr st'"
  shows "\<exists>n e. coalesce (map_of (raw_user_meta_data NEW) ''full_name'') (user_email NEW) = Some n \<and>
           user_email NEW = Some e \<and>
           auth_users st' = auth_users st \<and>
           teacher_profiles st' = teacher_profiles st @
             [\<lparr>pid = uid NEW, full_name = n, email = e, phone = None, department = None,
               designation = None, specialization = None, is_active = True\<rparr>]"
proof -
  from assms obtain n e where
    n: "coalesce (map_of (raw_user_meta_data NEW) ''full_name'') (user_email NEW) = Some n" and
    e: "user_email NEW = Some e" and
    ins: "insert_into_teacher_profiles f
            \<lparr>pid = uid NEW, full_name = n, email = e, phone = None, department = None,
             designation = None, specialization = None, is_active = True\<rparr> st = Inr st'"
    by (auto simp: signup_insert_def split: option.splits)
  from insert_into_teacher_profiles_Inr(1,2) [OF ins] n e show ?thesis by simp
qed

lemma cleanup_orphaned_auth_users_Inr:
  assumes run: "cleanup_orphaned_auth_users f st = Inr (st', n, m)"
  shows "auth_users st' = filter (\<lambda>u. uid u \<notin> user_ids st - profile_ids st) (auth_users st) \<and>
      teacher_profiles st' = teacher_profiles st \<and>
      user_ids st' \<subseteq> profile_ids st' \<and>
      n = length (orphaned_auth_users st)"
proof -
  from run have "cleanup_with_write_between f (\<lambda>s. s) st = Inr (st', n, m)"
    by (simp add: cleanup_with_no_write)
  from cleanup_with_write_between_Inr [OF this] obtain st1 where
    log: "insert_into_system_logs f (cleanup_log_row (select_orphaned_ids st)) st = Inr st1" and
    au: "auth_users st' = filter (\<lambda>u. uid u \<notin> user_ids st - profile_ids st) (auth_users st1)" and
    tp: "teacher_profiles st' =
           filter (\<lambda>r. pid r \<notin> (user_ids st - profile_ids st) \<inter> user_ids st1) (teacher_profiles st1)"
    by blast
  from insert_into_system_logs_Inr [OF log]
  have same: "auth_users st1 = auth_users st" "teacher_profiles st1 = teacher_profiles st"
    by simp_all
  have tp': "teacher_profiles st' = teacher_profiles st"
    unfolding tp same by (auto simp: filter_id_conv profile_ids_def)
  have n: "n = length (orphaned_auth_users st)"
    using run log
    by (auto simp: cleanup_orphaned_auth_users_def Let_def array_length_orphaned
          split: sum.splits if_splits)
  have "user_ids st' \<subseteq> profile_ids st'"
    unfolding user_ids_def profile_ids_def au tp' same
    by (auto simp: user_ids_def profile_ids_def)
  with au tp' n same show ?thesis by simp
qed

section \<open>Every profile keeps its identity\<close>











text \<open>
  With the foreign key of \<open>system_logs.user_id\<close> in force, the deletion of a profile
  that exists never completes: either the audit row cannot be inserted, because the
  identity it names is missing, or the identity cannot be deleted, because the audit
  rows just inserted name it.
\<close>

lemma system_logs_fk_blocks_cascade:
  assumes "p \<in> profile_ids st"
  shows "\<exists>e. delete_from_teacher_profiles system_logs_fk p st = Inl e"
proof -
  let ?rows = "filter (\<lambda>r. pid r = p) (teacher_profiles st)"
  from assms obtain r rows where rows: "?rows = r # rows"
    by (cases ?rows) (auto simp: profile_ids_def filter_empty_conv)
  have "r \<in> set ?rows" by (simp only: rows list.set_intros)
  then have r: "pid r = p" by simp
  have trig: "\<exists>e. after_delete_triggers system_logs_fk r s = Inl e" for s
  proof (cases "p \<in> user_ids s")
    case False
    with r show ?thesis
      by (simp add: after_delete_triggers_def insert_into_system_logs_def system_logs_fk_def)
  next
    case True
    with r show ?thesis
      by (simp add: after_delete_triggers_def delete_auth_user_on_profile_delete_def
            delete_auth_rows_def insert_into_system_logs_def system_logs_fk_def
            user_ids_def Let_def)
  qed
  have "\<exists>e. for_each_row (after_delete_triggers system_logs_fk) (r # rows) s = Inl e" for s
    using trig [of s] by auto
  then show ?thesis
    unfolding delete_from_teacher_profiles_def rows
    by (cases "system_logs_fk st (DeleteTeacherProfile p)") auto
qed

text \<open>
  When the lookup of the profile raises instead of returning empty data, the login
  fails with the text of that exception and deletes nothing.
\<close>

lemma login_does_not_heal_when_lookup_raises:
  assumes "sign_in_with_password e st mail pw = AuthResponse (Some u) (Some s)"
    and "au_id u \<notin> profile_ids st"
    and "single_no_rows e = NoRowsError m"
  shows "sign_in_with_profile_check e mail pw st =
           (Inl (PyException (''Sign in failed: '' @ m)), st)"
  using assms
  by (simp add: sign_in_with_profile_check_def sign_in_try_def select_single_profile_absent)

text \<open>
  On a store that refuses at least what the foreign key of \<open>system_logs.user_id\<close>
  refuses, a delete on \<open>auth.users\<close> that reaches a profile does not complete: the
  cascade fires the \<open>AFTER DELETE\<close> triggers, whose audit row names an identity that is
  no longer there.
\<close>

lemma cascade_refused_under_fk:
  assumes fk: "\<forall>s q. system_logs_fk s q \<noteq> None \<longrightarrow> f s q \<noteq> None"
    and gone: "pid r \<notin> user_ids s"
  shows "\<exists>e. after_delete_triggers f r s = Inl e"
proof -
  let ?row = "\<lparr>action = ''PROFILE_DELETED'', user_id = Some (pid r),
        resource_type = Some ''teacher_profile'', resource_id = Some (pid r),
        details = [(''old_data'', JRow r), (''deleted_at'', JNow)]\<rparr>"
  from gone have "system_logs_fk s (InsertSystemLog ?row) \<noteq> None"
    by (simp add: system_logs_fk_def)
  with fk have "f s (InsertSystemLog ?row) \<noteq> None" by blast
  then obtain m where "f s (InsertSystemLog ?row) = Some m" by auto
  then show ?thesis
    by (simp add: after_delete_triggers_def insert_into_system_logs_def)
qed

lemma delete_completes_only_without_profiles:
  assumes fk: "\<forall>s q. system_logs_fk s q \<noteq> None \<longrightarrow> f s q \<noteq> None"
    and run: "delete_from_auth_users f ids st = Inr st'"
  shows "\<forall>u \<in> set (auth_users st). uid u \<in> set ids \<longrightarrow> uid u \<notin> profile_ids st"
proof -
  let ?gone = "filter (\<lambda>u. uid u \<in> set ids) (auth_users st)"
  let ?casc = "filter (\<lambda>r. pid r \<in> uid ` set ?gone) (teacher_profiles st)"
  let ?st0 = "st\<lparr>auth_users := filter (\<lambda>u. uid u \<notin> set ids) (auth_users st),
                  teacher_profiles := filter (\<lambda>r. pid r \<notin> uid ` set ?gone) (teacher_profiles st)\<rparr>"
  from run have each: "for_each_row (after_delete_triggers f) ?casc ?st0 = Inr st'"
    by (auto simp: delete_from_auth_users_def Let_def split: option.splits)
  have none: "?casc = []"
  proof (cases ?casc)
    case Nil
    then show ?thesis .
  next
    case (Cons r rs)
    then have "r \<in> set ?casc" by (simp only: list.set_intros)
    then have "pid r \<in> set ids" by auto
    then have "pid r \<notin> user_ids ?st0" by (auto simp: user_ids_def)
    from cascade_refused_under_fk [of f r ?st0] fk this
    obtain e where "after_delete_triggers f r ?st0 = Inl e" by blast
    then have "for_each_row (after_delete_triggers f) (r # rs) ?st0 = Inl e" by simp
    with each Cons show ?thesis by simp
  qed
  show ?thesis
  proof (intro ballI impI)
    fix u assume u: "u \<in> set (auth_users st)" and i: "uid u \<in> set ids"
    show "uid u \<notin> profile_ids st"
    proof
      assume "uid u \<in> profile_ids st"
      then obtain r where r: "r \<in> set (teacher_profiles st)" "pid r = uid u"
        by (auto simp: profile_ids_def)
      from u i have "uid u \<in> uid ` set ?gone" by auto
      with r have "r \<in> set ?casc" by simp
      with none show False by simp
    qed
  qed
qed

lemma cleanup_with_write_between_cases:
  assumes "cleanup_with_write_between f w st = Inr (st', n, m)"
  shows "\<exists>st1. insert_into_system_logs f (cleanup_log_row (select_orphaned_ids st)) st = Inr st1 \<and>
           ((orphaned_auth_users st = [] \<and> st' = w st1) \<or>
            delete_from_auth_users f (map uid (orphaned_auth_users st)) (w st1) = Inr st')"
proof (cases "insert_into_system_logs f (cleanup_log_row (select_orphaned_ids st)) st")
  case (Inl e)
  with assms show ?thesis
    by (simp add: cleanup_with_write_between_def Let_def)
next
  case (Inr st1)
  show ?thesis
  proof (cases "orphaned_auth_users st = []")
    case True
    with assms Inr have "st' = w st1"
      by (simp add: cleanup_with_write_between_def Let_def array_length_orphaned)
    with Inr True show ?thesis by simp
  next
    case False
    with assms Inr have "delete_from_auth_users f (map uid (orphaned_auth_users st)) (w st1) = Inr st'"
      by (simp add: cleanup_with_write_between_def Let_def array_length_orphaned
            select_orphaned_ids_set split: sum.splits)
    with Inr show ?thesis by simp
  qed
qed

lemma cleanup_spares_identities_with_profile:
  assumes fk: "\<forall>s q. system_logs_fk s q \<noteq> None \<longrightarrow> f s q \<noteq> None"
    and run: "cleanup_with_write_between f w st = Inr (st', n, m)"
    and log: "insert_into_system_logs f (cleanup_log_row (select_orphaned_ids st)) st = Inr st1"
    and u: "u \<in> set (auth_users (w st1))" and del: "uid u \<notin> user_ids st'"
  shows "uid u \<notin> profile_ids (w st1)"
proof -
  from cleanup_with_write_between_cases [OF run] log have
    c: "(orphaned_auth_users st = [] \<and> st' = w st1) \<or>
        delete_from_auth_users f (map uid (orphaned_auth_users st)) (w st1) = Inr st'"
    by simp
  from u del have "st' \<noteq> w st1" by (auto simp: user_ids_def)
  with c have d: "delete_from_auth_users f (map uid (orphaned_auth_users st)) (w st1) = Inr st'"
    by blast
  from delete_from_auth_users_Inr(1) [OF d]
  have "auth_users st' =
          filter (\<lambda>u. uid u \<notin> set (map uid (orphaned_auth_users st))) (auth_users (w st1))" .
  with u del have "uid u \<in> set (map uid (orphaned_auth_users st))"
    by (auto simp: user_ids_def)
  with delete_completes_only_without_profiles [OF fk d] u show ?thesis by blast
qed

lemma sign_in_try_fails_without_profile:
  assumes "sign_in_with_password e st mail pw = AuthResponse (Some u) (Some s)"
    and "au_id u \<notin> profile_ids st"
  shows "\<exists>m st'. sign_in_try e mail pw st = (Inl (PyException m), st')"
  using assms
  by (cases "single_no_rows e")
     (auto simp: sign_in_try_def select_single_profile_absent split: sum.splits)

section \<open>The cascade on profile deletion\<close>

text \<open>
  C3, as the code has it. The identity is deleted by a statement of the trigger function,
  inside the statement that deletes the profile, and the function has no handler. So a
  profile deletion that completes has removed the profile and, when there was one, the
  identity with the same id; and when the delete on \<open>auth.users\<close> is refused, the
  deletion of an existing profile raises as a whole: nothing of it is kept, neither the
  removal of the row nor the audit rows.
\<close>

theorem cascade_delete_aborts_with_identity_delete:
  "(\<forall>st'. delete_from_teacher_profiles f p st = Inr st' \<longrightarrow>
       p \<notin> profile_ids st' \<and> (p \<in> profile_ids st \<longrightarrow> p \<notin> user_ids st')) \<and>
   (p \<in> profile_ids st \<and> (\<forall>s. f s (DeleteAuthUsers [p]) \<noteq> None) \<longrightarrow>
      (\<exists>e. delete_from_teacher_profiles f p st = Inl e))"
proof (rule conjI)
  show "\<forall>st'. delete_from_teacher_profiles f p st = Inr st' \<longrightarrow>
       p \<notin> profile_ids st' \<and> (p \<in> profile_ids st \<longrightarrow> p \<notin> user_ids st')"
  proof (intro allI impI)
    fix st' assume r: "delete_from_teacher_profiles f p st = Inr st'"
    note eff = delete_from_teacher_profiles_Inr [OF r]
    show "p \<notin> profile_ids st' \<and> (p \<in> profile_ids st \<longrightarrow> p \<notin> user_ids st')"
      using eff(1,2) by (auto simp: profile_ids_def user_ids_def)
  qed
next
  show "p \<in> profile_ids st \<and> (\<forall>s. f s (DeleteAuthUsers [p]) \<noteq> None) \<longrightarrow>
      (\<exists>e. delete_from_teacher_profiles f p st = Inl e)"
  proof
    assume h: "p \<in> profile_ids st \<and> (\<forall>s. f s (DeleteAuthUsers [p]) \<noteq> None)"
    let ?rows = "filter (\<lambda>r. pid r = p) (teacher_profiles st)"
    from h obtain r rows where rows: "?rows = r # rows"
      by (cases ?rows) (auto simp: profile_ids_def filter_empty_conv)
    have "r \<in> set ?rows" by (simp only: rows list.set_intros)
    then have "pid r = p" by simp
    with h have "\<forall>s. f s (DeleteAuthUsers [pid r]) \<noteq> None" by simp
    then have ab: "\<And>s. \<exists>e. after_delete_triggers f r s = Inl e"
      using triggers_abort_when_identity_delete_fails [of f r] by blast
    have "\<And>s. \<exists>e. for_each_row (after_delete_triggers f) (r # rows) s = Inl e"
    proof -
      fix s from ab [of s] obtain e where "after_delete_triggers f r s = Inl e" by blast
      then show "\<exists>e. for_each_row (after_delete_triggers f) (r # rows) s = Inl e" by simp
    qed
    then show "\<exists>e. delete_from_teacher_profiles f p st = Inl e"
      unfolding delete_from_teacher_profiles_def rows
      by (cases "f st (DeleteTeacherProfile p)") auto
  qed
qed

text \<open>
  C3, witness: without faults the deletion of Alice's profile completes and removes her
  identity too; with every delete on \<open>auth.users\<close> refused it raises.
\<close>

theorem cascade_delete_aborts_with_identity_delete_witness:
  "(\<exists>st'. delete_from_teacher_profiles no_faults 1 synced_db = Inr st' \<and>
          1 \<notin> profile_ids st' \<and> 1 \<notin> user_ids st') \<and>
   (1 \<in> profile_ids synced_db \<and>
    (\<forall>s. refuse_identity_delete s (DeleteAuthUsers [1]) \<noteq> None) \<and>
    (\<exists>e. delete_from_teacher_profiles refuse_identity_delete 1 synced_db = Inl e))"
proof -
  have run: "\<exists>st'. delete_from_teacher_profiles no_faults 1 synced_db = Inr st'"
    by (simp add: delete_from_teacher_profiles_def synced_db_def alice_def alice_profile_def
          after_delete_triggers_def delete_auth_user_on_profile_delete_def delete_auth_rows_def
          insert_into_system_logs_def no_faults_def)
  have mem: "1 \<in> profile_ids synced_db"
    by (simp add: profile_ids_def synced_db_def alice_profile_def)
  have ref: "\<forall>s. refuse_identity_delete s (DeleteAuthUsers [1]) \<noteq> None"
    by (simp add: refuse_identity_delete_def)
  from run mem cascade_delete_aborts_with_identity_delete [of no_faults 1 synced_db]
  have first: "\<exists>st'. delete_from_teacher_profiles no_faults 1 synced_db = Inr st' \<and>
          1 \<notin> profile_ids st' \<and> 1 \<notin> user_ids st'"
    by blast
  from mem ref cascade_delete_aborts_with_identity_delete [of refuse_identity_delete 1 synced_db]
  have second: "\<exists>e. delete_from_teacher_profiles refuse_identity_delete 1 synced_db = Inl e"
    by blast
  from first mem ref second show ?thesis by blast
qed

text \<open>
  C3 as stated fails: the failure of the identity deletion is not swallowed. With the
  foreign key of \<open>system_logs.user_id\<close> in force, the \<open>PROFILE_DELETED\<close> rows that
  the triggers have just inserted name the identity, its deletion is rejected, and the
  deletion of Alice's profile raises that error: the profile row is not gone.
\<close>

theorem cascade_delete_not_fail_open:
  "delete_from_teacher_profiles system_logs_fk 1 synced_db =
     Inl (SqlError ''update or delete on table users violates foreign key constraint system_logs_user_id_fkey on table system_logs'') \<and>
   alice_profile \<in> set (teacher_profiles
     (state_after (delete_from_teacher_profiles system_logs_fk 1 synced_db) synced_db))"
proof -
  have "delete_from_teacher_profiles system_logs_fk 1 synced_db =
     Inl (SqlError ''update or delete on table users violates foreign key constraint system_logs_user_id_fkey on table system_logs'')"
    by (simp add: delete_from_teacher_profiles_def synced_db_def alice_def alice_profile_def
          after_delete_triggers_def delete_auth_user_on_profile_delete_def delete_auth_rows_def
          insert_into_system_logs_def system_logs_fk_def user_ids_def)
  then show ?thesis
    by (simp add: state_after_def synced_db_def)
qed

section \<open>Audit entries of a repeated deletion\<close>

text \<open>
  C8, as the code has it. Two \<open>AFTER DELETE\<close> row triggers are attached to
  \<open>teacher_profiles\<close>, and \<open>audit_profile_changes\<close> and
  \<open>delete_auth_user_on_profile_delete\<close> each insert a \<open>PROFILE_DELETED\<close> row. With one
  row per key, a first deletion that completes appends two such entries; the second
  deletion, of the row that is no longer there, fires no trigger and appends none.
\<close>

theorem double_delete_appends_two_entries:
  assumes "distinct (map pid (teacher_profiles st))"
    and "p \<in> profile_ids st"
    and "delete_from_teacher_profiles f1 p st = Inr st1"
  shows "profile_deleted_entries st1 = profile_deleted_entries st + 2 \<and>
         profile_deleted_entries (state_after (delete_from_teacher_profiles f2 p st1) st1) =
           profile_deleted_entries st1"
proof
  note eff = delete_from_teacher_profiles_Inr [OF assms(3)]
  have one: "length (filter (\<lambda>r. pid r = p) (teacher_profiles st)) = 1"
    using assms(1,2) by (simp add: one_row_per_key profile_ids_def)
  have "replicate (2 * 1) ''PROFILE_DELETED'' = [''PROFILE_DELETED'', ''PROFILE_DELETED'']"
    by (simp add: numeral_2_eq_2)
  with eff(3) one show "profile_deleted_entries st1 = profile_deleted_entries st + 2"
    by (simp add: profile_deleted_entries_map)
  have gone: "filter (\<lambda>r. pid r = p) (teacher_profiles st1) = []"
    using eff(1) by (simp add: filter_empty_conv)
  show "profile_deleted_entries (state_after (delete_from_teacher_profiles f2 p st1) st1) =
           profile_deleted_entries st1"
  proof (cases "delete_from_teacher_profiles f2 p st1")
    case (Inl e)
    then show ?thesis by (simp add: state_after_def)
  next
    case (Inr st2)
    from delete_from_teacher_profiles_Inr(3) [OF Inr] gone
    have "map action (system_logs st2) = map action (system_logs st1)" by simp
    with Inr show ?thesis by (simp add: state_after_def profile_deleted_entries_map)
  qed
qed

text \<open>
  C8, witness: Alice's profile is the only row with her key, and its deletion without
  faults completes.
\<close>

theorem double_delete_appends_two_entries_witness:
  "distinct (map pid (teacher_profiles synced_db)) \<and> 1 \<in> profile_ids synced_db \<and>
   (\<exists>st1. delete_from_teacher_profiles no_faults 1 synced_db = Inr st1 \<and>
      profile_deleted_entries st1 = profile_deleted_entries synced_db + 2 \<and>
      profile_deleted_entries (state_after (delete_from_teacher_profiles no_faults 1 st1) st1) =
        profile_deleted_entries st1)"
proof -
  have d: "distinct (map pid (teacher_profiles synced_db))"
    by (simp add: synced_db_def)
  have m: "1 \<in> profile_ids synced_db"
    by (simp add: profile_ids_def synced_db_def alice_profile_def)
  obtain st1 where run: "delete_from_teacher_profiles no_faults 1 synced_db = Inr st1"
    by (simp add: delete_from_teacher_profiles_def synced_db_def alice_def alice_profile_def
          after_delete_triggers_def delete_auth_user_on_profile_delete_def delete_auth_rows_def
          insert_into_system_logs_def no_faults_def)
  from double_delete_appends_two_entries [OF d m run, of no_faults] d m run
  show ?thesis by blast
qed

text \<open>
  C8 as stated fails: the total is never one. Without faults the two deletions of
  Alice's profile leave two \<open>PROFILE_DELETED\<close> entries; with the foreign key of
  \<open>system_logs.user_id\<close> in force both deletions are rolled back and leave none.
\<close>

theorem double_delete_not_one_entry:
  "profile_deleted_entries synced_db = 0 \<and>
   profile_deleted_entries (delete_profile_twice no_faults 1 synced_db) = 2 \<and>
   profile_deleted_entries (delete_profile_twice system_logs_fk 1 synced_db) = 0"
  by (simp add: delete_profile_twice_def state_after_def profile_deleted_entries_def
      delete_from_teacher_profiles_def synced_db_def alice_def alice_profile_def
      after_delete_triggers_def delete_auth_user_on_profile_delete_def delete_auth_rows_def
      insert_into_system_logs_def system_logs_fk_def user_ids_def no_faults_def Let_def)

section \<open>The cleanup of orphaned identities\<close>

text \<open>
  C6. A run of \<open>cleanup_orphaned_auth_users\<close> with nothing committed in between
  deletes exactly the identities whose id is in \<open>{identity ids} - {profile ids}\<close>
  and leaves the profiles alone, so that afterwards every identity has a profile; the
  count it returns is the size of that difference. When the store refuses none of its
  statements, the run completes.
\<close>

theorem cleanup_deletes_exactly_the_orphans:
  "(\<forall>st' n m. cleanup_orphaned_auth_users f st = Inr (st', n, m) \<longrightarrow>
      auth_users st' = filter (\<lambda>u. uid u \<notin> user_ids st - profile_ids st) (auth_users st) \<and>
      teacher_profiles st' = teacher_profiles st \<and>
      user_ids st' \<subseteq> profile_ids st' \<and>
      n = length (orphaned_auth_users st)) \<and>
   ((\<forall>s q. f s q = None) \<longrightarrow> (\<exists>r. cleanup_orphaned_auth_users f st = Inr r))"
proof (rule conjI)
  show "\<forall>st' n m. cleanup_orphaned_auth_users f st = Inr (st', n, m) \<longrightarrow>
      auth_users st' = filter (\<lambda>u. uid u \<notin> user_ids st - profile_ids st) (auth_users st) \<and>
      teacher_profiles st' = teacher_profiles st \<and>
      user_ids st' \<subseteq> profile_ids st' \<and>
      n = length (orphaned_auth_users st)"
    using cleanup_orphaned_auth_users_Inr by blast
next
  show "(\<forall>s q. f s q = None) \<longrightarrow> (\<exists>r. cleanup_orphaned_auth_users f st = Inr r)"
  proof
    assume nf: "\<forall>s q. f s q = None"
    let ?st1 = "st\<lparr>system_logs := system_logs st @ [cleanup_log_row (select_orphaned_ids st)]\<rparr>"
    have log: "insert_into_system_logs f (cleanup_log_row (select_orphaned_ids st)) st = Inr ?st1"
      using nf by (simp add: insert_into_system_logs_def)
    have "\<forall>i \<in> set (map uid (orphaned_auth_users st)). i \<notin> profile_ids ?st1"
      by (auto simp: orphaned_auth_users_def profile_ids_def)
    from delete_from_auth_users_no_profile [OF this, of f]
    have "\<exists>st2. delete_from_auth_users f (map uid (orphaned_auth_users st)) ?st1 = Inr st2"
      using nf by (simp add: delete_auth_rows_def)
    with log show "\<exists>r. cleanup_orphaned_auth_users f st = Inr r"
      by (auto simp: cleanup_orphaned_auth_users_def Let_def select_orphaned_ids_set)
  qed
qed

text \<open>
  C6, witness: from Alice with her profile and Bob without one, the run completes,
  reports one deletion and leaves Alice alone.
\<close>

theorem cleanup_deletes_exactly_the_orphans_witness:
  "(\<forall>s q. no_faults s q = None) \<and>
   (\<exists>st' n m. cleanup_orphaned_auth_users no_faults drifted_db = Inr (st', n, m) \<and>
       auth_users st' = [alice] \<and> teacher_profiles st' = [alice_profile] \<and>
       user_ids st' \<subseteq> profile_ids st' \<and> n = 1)"
proof -
  have nf: "\<forall>s q. no_faults s q = None"
    by (simp add: no_faults_def)
  note main = cleanup_deletes_exactly_the_orphans [of no_faults drifted_db]
  from main nf obtain st' n m where
    run: "cleanup_orphaned_auth_users no_faults drifted_db = Inr (st', n, m)"
    by (metis prod_cases3)
  with main have
    au: "auth_users st' =
           filter (\<lambda>u. uid u \<notin> user_ids drifted_db - profile_ids drifted_db) (auth_users drifted_db)" and
    tp: "teacher_profiles st' = teacher_profiles drifted_db" and
    sub: "user_ids st' \<subseteq> profile_ids st'" and
    n: "n = length (orphaned_auth_users drifted_db)"
    by blast+
  have "auth_users st' = [alice]"
    unfolding au by (simp add: drifted_db_def user_ids_def profile_ids_def alice_def bob_def
                       alice_profile_def)
  moreover have "teacher_profiles st' = [alice_profile]"
    unfolding tp by (simp add: drifted_db_def)
  moreover have "n = 1"
    unfolding n by (simp add: orphaned_auth_users_def drifted_db_def profile_ids_def alice_def
                      bob_def alice_profile_def)
  ultimately show ?thesis using nf run sub by blast
qed

text \<open>
  C7, as the code has it. The function does not read again before it deletes: it deletes
  by the array of its one scan, in one statement, so a completed run has removed exactly
  the identities that had no profile at the time of the scan. With the foreign key of
  \<open>system_logs.user_id\<close> in force it has still deleted no identity that had a profile
  at the moment of the delete: when a profile has been committed for a scanned identity
  in between, the run raises, and then it deletes nothing at all.
\<close>

theorem cleanup_deletes_by_scanned_list:
  "(\<forall>st' n m. cleanup_with_write_between f w st = Inr (st', n, m) \<longrightarrow>
      (\<exists>st1. insert_into_system_logs f (cleanup_log_row (select_orphaned_ids st)) st = Inr st1 \<and>
         auth_users st' =
           filter (\<lambda>u. uid u \<notin> user_ids st - profile_ids st) (auth_users (w st1)) \<and>
         ((\<forall>s q. system_logs_fk s q \<noteq> None \<longrightarrow> f s q \<noteq> None) \<longrightarrow>
            (\<forall>u \<in> set (auth_users (w st1)).
               uid u \<notin> user_ids st' \<longrightarrow> uid u \<notin> profile_ids (w st1))))) \<and>
   ((\<forall>s q. system_logs_fk s q \<noteq> None \<longrightarrow> f s q \<noteq> None) \<longrightarrow>
      (\<forall>st1 i. insert_into_system_logs f (cleanup_log_row (select_orphaned_ids st)) st = Inr st1 \<and>
          i \<in> user_ids st - profile_ids st \<and>
          i \<in> user_ids (w st1) \<and> i \<in> profile_ids (w st1) \<longrightarrow>
          (\<exists>e. cleanup_with_write_between f w st = Inl e)))"
proof (rule conjI)
  show "\<forall>st' n m. cleanup_with_write_between f w st = Inr (st', n, m) \<longrightarrow>
      (\<exists>st1. insert_into_system_logs f (cleanup_log_row (select_orphaned_ids st)) st = Inr st1 \<and>
         auth_users st' =
           filter (\<lambda>u. uid u \<notin> user_ids st - profile_ids st) (auth_users (w st1)) \<and>
         ((\<forall>s q. system_logs_fk s q \<noteq> None \<longrightarrow> f s q \<noteq> None) \<longrightarrow>
            (\<forall>u \<in> set (auth_users (w st1)).
               uid u \<notin> user_ids st' \<longrightarrow> uid u \<notin> profile_ids (w st1))))"
  proof (intro allI impI)
    fix st' n m
    assume run: "cleanup_with_write_between f w st = Inr (st', n, m)"
    from cleanup_with_write_between_Inr [OF run] obtain st1 where
      log: "insert_into_system_logs f (cleanup_log_row (select_orphaned_ids st)) st = Inr st1" and
      au: "auth_users st' =
             filter (\<lambda>u. uid u \<notin> user_ids st - profile_ids st) (auth_users (w st1))"
      by blast
    have "(\<forall>s q. system_logs_fk s q \<noteq> None \<longrightarrow> f s q \<noteq> None) \<longrightarrow>
            (\<forall>u \<in> set (auth_users (w st1)).
               uid u \<notin> user_ids st' \<longrightarrow> uid u \<notin> profile_ids (w st1))"
      using cleanup_spares_identities_with_profile [OF _ run log] by blast
    with log au show "\<exists>st1. insert_into_system_logs f (cleanup_log_row (select_orphaned_ids st)) st = Inr st1 \<and>
         auth_users st' =
           filter (\<lambda>u. uid u \<notin> user_ids st - profile_ids st) (auth_users (w st1)) \<and>
         ((\<forall>s q. system_logs_fk s q \<noteq> None \<longrightarrow> f s q \<noteq> None) \<longrightarrow>
            (\<forall>u \<in> set (auth_users (w st1)).
               uid u \<notin> user_ids st' \<longrightarrow> uid u \<notin> profile_ids (w st1)))"
      by blast
  qed
next
  show "(\<forall>s q. system_logs_fk s q \<noteq> None \<longrightarrow> f s q \<noteq> None) \<longrightarrow>
      (\<forall>st1 i. insert_into_system_logs f (cleanup_log_row (select_orphaned_ids st)) st = Inr st1 \<and>
          i \<in> user_ids st - profile_ids st \<and>
          i \<in> user_ids (w st1) \<and> i \<in> profile_ids (w st1) \<longrightarrow>
          (\<exists>e. cleanup_with_write_between f w st = Inl e))"
  proof (intro allI impI)
    fix st1 i
    assume fk: "\<forall>s q. system_logs_fk s q \<noteq> None \<longrightarrow> f s q \<noteq> None"
    assume h: "insert_into_system_logs f (cleanup_log_row (select_orphaned_ids st)) st = Inr st1 \<and>
          i \<in> user_ids st - profile_ids st \<and>
          i \<in> user_ids (w st1) \<and> i \<in> profile_ids (w st1)"
    show "\<exists>e. cleanup_with_write_between f w st = Inl e"
    proof (cases "cleanup_with_write_between f w st")
      case (Inl e)
      then show ?thesis by blast
    next
      case (Inr res)
      obtain st' n m where res: "res = (st', n, m)" by (cases res) auto
      with Inr have run: "cleanup_with_write_between f w st = Inr (st', n, m)" by simp
      from h obtain u where u: "u \<in> set (auth_users (w st1))" "uid u = i"
        by (auto simp: user_ids_def)
      from cleanup_with_write_between_Inr [OF run] h have
        "auth_users st' =
           filter (\<lambda>u. uid u \<notin> user_ids st - profile_ids st) (auth_users (w st1))"
        by auto
      with h u have "uid u \<notin> user_ids st'" by (auto simp: user_ids_def)
      from cleanup_spares_identities_with_profile [OF fk run _ u(1) this] h u
      show ?thesis by blast
    qed
  qed
qed

text \<open>
  C7, witness, on the store with the foreign key: while the cleanup of Bob runs, Carol
  signs up, and the run completes; and while the cleanup of Bob and Carol runs, Bob's
  profile is committed, and the run raises.
\<close>

theorem cleanup_deletes_by_scanned_list_witness:
  "(\<exists>st' n m st1.
      cleanup_with_write_between system_logs_fk carol_signs_up drifted_db = Inr (st', n, m) \<and>
      insert_into_system_logs system_logs_fk (cleanup_log_row (select_orphaned_ids drifted_db))
        drifted_db = Inr st1 \<and>
      auth_users st' = [alice, carol] \<and>
      bob \<in> set (auth_users (carol_signs_up st1)) \<and>
      uid bob \<notin> user_ids st' \<and> uid bob \<notin> profile_ids (carol_signs_up st1)) \<and>
   (\<exists>st1. insert_into_system_logs system_logs_fk
             (cleanup_log_row (select_orphaned_ids two_orphans_db)) two_orphans_db = Inr st1 \<and>
      2 \<in> user_ids two_orphans_db - profile_ids two_orphans_db \<and>
      2 \<in> user_ids (bob_profile_arrives st1) \<and> 2 \<in> profile_ids (bob_profile_arrives st1) \<and>
      (\<exists>e. cleanup_with_write_between system_logs_fk bob_profile_arrives two_orphans_db = Inl e))"
proof -
  have fk: "\<forall>s q. system_logs_fk s q \<noteq> None \<longrightarrow> system_logs_fk s q \<noteq> None"
    by simp
  obtain st' n m where
    run: "cleanup_with_write_between system_logs_fk carol_signs_up drifted_db = Inr (st', n, m)"
    by (simp add: cleanup_with_write_between_def carol_signs_up_def drifted_db_def
        alice_def bob_def carol_def alice_profile_def
        insert_into_system_logs_def system_logs_fk_def cleanup_log_row_def select_orphaned_ids_def
        orphaned_auth_users_def array_length_or_zero_def profile_ids_def user_ids_def
        insert_into_auth_users_def create_teacher_profile_on_signup_def signup_insert_def
        coalesce_def insert_into_teacher_profiles_def delete_from_auth_users_def Let_def)
  let ?d1 = "drifted_db\<lparr>system_logs :=
               system_logs drifted_db @ [cleanup_log_row (select_orphaned_ids drifted_db)]\<rparr>"
  have dlog: "insert_into_system_logs system_logs_fk
                (cleanup_log_row (select_orphaned_ids drifted_db)) drifted_db = Inr ?d1"
    by (simp add: insert_into_system_logs_def system_logs_fk_def cleanup_log_row_def)
  from cleanup_deletes_by_scanned_list [of system_logs_fk carol_signs_up drifted_db] fk run dlog
  have au: "auth_users st' =
              filter (\<lambda>u. uid u \<notin> user_ids drifted_db - profile_ids drifted_db)
                (auth_users (carol_signs_up ?d1))"
    and spared: "\<forall>u \<in> set (auth_users (carol_signs_up ?d1)).
                   uid u \<notin> user_ids st' \<longrightarrow> uid u \<notin> profile_ids (carol_signs_up ?d1)"
    by auto
  have users: "auth_users (carol_signs_up ?d1) = [alice, bob, carol]"
    by (simp add: carol_signs_up_def drifted_db_def alice_def bob_def carol_def alice_profile_def
        insert_into_system_logs_def system_logs_fk_def cleanup_log_row_def
        profile_ids_def user_ids_def
        insert_into_auth_users_def create_teacher_profile_on_signup_def signup_insert_def
        coalesce_def insert_into_teacher_profiles_def)
  have left: "auth_users st' = [alice, carol]"
    unfolding au users
    by (simp add: drifted_db_def alice_def bob_def carol_def alice_profile_def
          profile_ids_def user_ids_def)
  have bob_there: "bob \<in> set (auth_users (carol_signs_up ?d1))"
    unfolding users by simp
  have bob_gone: "uid bob \<notin> user_ids st'"
    unfolding user_ids_def left by (simp add: alice_def bob_def carol_def)
  from spared bob_there bob_gone
  have bob_orphan: "uid bob \<notin> profile_ids (carol_signs_up ?d1)" by blast
  from run dlog left bob_there bob_gone bob_orphan
  have first: "\<exists>st' n m st1.
      cleanup_with_write_between system_logs_fk carol_signs_up drifted_db = Inr (st', n, m) \<and>
      insert_into_system_logs system_logs_fk (cleanup_log_row (select_orphaned_ids drifted_db))
        drifted_db = Inr st1 \<and>
      auth_users st' = [alice, carol] \<and>
      bob \<in> set (auth_users (carol_signs_up st1)) \<and>
      uid bob \<notin> user_ids st' \<and> uid bob \<notin> profile_ids (carol_signs_up st1)"
    by blast
  let ?st1 = "two_orphans_db\<lparr>system_logs :=
                system_logs two_orphans_db @ [cleanup_log_row (select_orphaned_ids two_orphans_db)]\<rparr>"
  have log: "insert_into_system_logs system_logs_fk
               (cleanup_log_row (select_orphaned_ids two_orphans_db)) two_orphans_db = Inr ?st1"
    by (simp add: insert_into_system_logs_def system_logs_fk_def cleanup_log_row_def)
  have scanned: "2 \<in> user_ids two_orphans_db - profile_ids two_orphans_db"
    by (simp add: user_ids_def profile_ids_def two_orphans_db_def bob_def carol_def)
  have there: "2 \<in> user_ids (bob_profile_arrives ?st1) \<and> 2 \<in> profile_ids (bob_profile_arrives ?st1)"
    by (simp add: bob_profile_arrives_def state_after_def insert_into_teacher_profiles_def
          insert_into_system_logs_def system_logs_fk_def two_orphans_db_def bob_def carol_def
          bob_profile_def user_ids_def profile_ids_def)
  from cleanup_deletes_by_scanned_list [of system_logs_fk bob_profile_arrives two_orphans_db]
       fk log scanned there
  have "\<exists>e. cleanup_with_write_between system_logs_fk bob_profile_arrives two_orphans_db = Inl e"
    by blast
  with log scanned there have second: "\<exists>st1. insert_into_system_logs system_logs_fk
             (cleanup_log_row (select_orphaned_ids two_orphans_db)) two_orphans_db = Inr st1 \<and>
      2 \<in> user_ids two_orphans_db - profile_ids two_orphans_db \<and>
      2 \<in> user_ids (bob_profile_arrives st1) \<and> 2 \<in> profile_ids (bob_profile_arrives st1) \<and>
      (\<exists>e. cleanup_with_write_between system_logs_fk bob_profile_arrives two_orphans_db = Inl e)"
    by blast
  from first second show ?thesis by blast
qed

text \<open>
  C7 as stated fails: the function is not read-then-delete for each id. Bob and Carol
  have no profile when it scans, and Bob's profile is committed before the delete. The
  job that rechecks each id skips Bob, deletes Carol and completes; the function of the
  trigger file raises on its one delete and leaves Carol, an orphan still, in place.
\<close>

theorem cleanup_is_not_read_then_delete:
  "cleanup_with_write_between system_logs_fk bob_profile_arrives two_orphans_db =
     Inl (SqlError ''update or delete on table users violates foreign key constraint system_logs_user_id_fkey on table system_logs'') \<and>
   cleanup_rechecking_each_id system_logs_fk bob_profile_arrives two_orphans_db =
     Inr (\<lparr>auth_users = [bob], teacher_profiles = [bob_profile],
           system_logs =
             [cleanup_log_row (Some [2, 3]),
              \<lparr>action = ''PROFILE_CREATED'', user_id = Some 2,
               resource_type = Some ''teacher_profile'', resource_id = Some 2,
               details = [(''new_data'', JRow bob_profile), (''created_at'', JNow)]\<rparr>]\<rparr>,
          2, ''Orphaned auth users cleaned up: 2'')"
  by code_simp

section \<open>The login verifier\<close>

text \<open>
  C1. \<open>sign_in_with_profile_check\<close> returns a session only when the credential check
  returned a user and a session and \<open>teacher_profiles\<close> holds, at that moment, a row
  whose key is the id of that user; the session returned is the one of the credential
  check. When the check succeeds and no such row exists, the function raises, however
  the query layer reports the missing row.
\<close>

theorem session_only_with_profile:
  "(\<forall>r st'. sign_in_with_profile_check e mail pw st = (Inr r, st') \<longrightarrow>
      (\<exists>u s p. sign_in_with_password e st mail pw = AuthResponse (Some u) (Some s) \<and>
          p \<in> set (teacher_profiles st) \<and> pid p = au_id u \<and>
          res_session r = s \<and> lu_id (res_user r) = au_id u \<and> st' = st)) \<and>
   (\<forall>u s. sign_in_with_password e st mail pw = AuthResponse (Some u) (Some s) \<and>
          au_id u \<notin> profile_ids st \<longrightarrow>
      (\<exists>ex st'. sign_in_with_profile_check e mail pw st = (Inl ex, st')))"
proof (rule conjI)
  show "\<forall>r st'. sign_in_with_profile_check e mail pw st = (Inr r, st') \<longrightarrow>
      (\<exists>u s p. sign_in_with_password e st mail pw = AuthResponse (Some u) (Some s) \<and>
          p \<in> set (teacher_profiles st) \<and> pid p = au_id u \<and>
          res_session r = s \<and> lu_id (res_user r) = au_id u \<and> st' = st)"
  proof (intro allI impI)
    fix r st'
    assume "sign_in_with_profile_check e mail pw st = (Inr r, st')"
    then have "sign_in_try e mail pw st = (Inr r, st')"
      by (auto simp: sign_in_with_profile_check_def split: prod.splits sum.splits)
    from sign_in_try_Inr [OF this] obtain u s p where
      "sign_in_with_password e st mail pw = AuthResponse (Some u) (Some s)"
      "select_single_profile (single_no_rows e) st (au_id u) = QueryData (Some p)"
      "res_session r = s" "lu_id (res_user r) = au_id u" "st' = st"
      by blast
    with select_single_profile_data [of "single_no_rows e" st "au_id u" p]
    show "\<exists>u s p. sign_in_with_password e st mail pw = AuthResponse (Some u) (Some s) \<and>
          p \<in> set (teacher_profiles st) \<and> pid p = au_id u \<and>
          res_session r = s \<and> lu_id (res_user r) = au_id u \<and> st' = st"
      by blast
  qed
next
  show "\<forall>u s. sign_in_with_password e st mail pw = AuthResponse (Some u) (Some s) \<and>
          au_id u \<notin> profile_ids st \<longrightarrow>
      (\<exists>ex st'. sign_in_with_profile_check e mail pw st = (Inl ex, st'))"
  proof (intro allI impI)
    fix u s
    assume "sign_in_with_password e st mail pw = AuthResponse (Some u) (Some s) \<and>
          au_id u \<notin> profile_ids st"
    with sign_in_try_no_profile [of e st mail pw u s]
    obtain ex st' where "sign_in_try e mail pw st = (Inl ex, st')" by blast
    then show "\<exists>ex st'. sign_in_with_profile_check e mail pw st = (Inl ex, st')"
      by (simp add: sign_in_with_profile_check_def)
  qed
qed

text \<open>
  C1, witness: Alice, who has a profile, gets her session; Bob, who has none, is
  refused.
\<close>

theorem session_only_with_profile_witness:
  "(\<exists>r. sign_in_with_profile_check (example_env EmptyData no_faults)
           ''alice@x.com'' ''secret-a'' drifted_db = (Inr r, drifted_db) \<and>
        (\<exists>p \<in> set (teacher_profiles drifted_db). pid p = lu_id (res_user r))) \<and>
   (\<exists>u s. sign_in_with_password (example_env EmptyData no_faults) drifted_db
             ''bob@x.com'' ''secret-b'' = AuthResponse (Some u) (Some s) \<and>
          au_id u \<notin> profile_ids drifted_db \<and>
          (\<exists>ex st'. sign_in_with_profile_check (example_env EmptyData no_faults)
             ''bob@x.com'' ''secret-b'' drifted_db = (Inl ex, st')))"
proof -
  let ?e = "example_env EmptyData no_faults"
  note main = session_only_with_profile [of ?e _ _ drifted_db]
  have alice_in: "sign_in_with_profile_check ?e ''alice@x.com'' ''secret-a'' drifted_db =
      (Inr \<lparr>res_user = \<lparr>lu_id = 1, lu_email = ''alice@x.com'', lu_role = ''teacher'',
                        lu_full_name = ''Alice''\<rparr>,
            res_session = \<lparr>access_token = ''access-alice@x.com'',
                           refresh_token = ''refresh-alice@x.com'', expires_at = 3600\<rparr>\<rparr>,
       drifted_db)"
    by code_simp
  from main [of "''alice@x.com''" "''secret-a''"] alice_in
  have first: "\<exists>r. sign_in_with_profile_check ?e ''alice@x.com'' ''secret-a'' drifted_db =
                  (Inr r, drifted_db) \<and>
               (\<exists>p \<in> set (teacher_profiles drifted_db). pid p = lu_id (res_user r))"
    by (metis (no_types, lifting))
  have bob_ok: "sign_in_with_password ?e drifted_db ''bob@x.com'' ''secret-b'' =
      AuthResponse (Some \<lparr>au_id = 2, au_email = ''bob@x.com'', user_metadata = []\<rparr>)
        (Some \<lparr>access_token = ''access-bob@x.com'', refresh_token = ''refresh-bob@x.com'',
               expires_at = 3600\<rparr>)"
    by (simp add: example_env_def password_provider_def drifted_db_def alice_def bob_def)
  have bob_orphan: "au_id \<lparr>au_id = 2, au_email = ''bob@x.com'', user_metadata = []\<rparr>
                      \<notin> profile_ids drifted_db"
    by (simp add: profile_ids_def drifted_db_def alice_profile_def)
  from main [of "''bob@x.com''" "''secret-b''"] bob_ok bob_orphan
  have second: "\<exists>ex st'. sign_in_with_profile_check ?e ''bob@x.com'' ''secret-b'' drifted_db =
                  (Inl ex, st')"
    by blast
  from first bob_ok bob_orphan second show ?thesis by blast
qed

text \<open>
  C4, as the code has it. When the credential check succeeds and \<open>teacher_profiles\<close>
  has no row for the returned id, the login always fails with an exception whose text
  begins with \<open>Sign in failed: \<close>. When the lookup comes back with empty data (the case
  the function tests with \<open>not profile.data\<close>) and the store does not refuse the delete,
  the function has also deleted the identity, so that a lookup of it finds nothing.
\<close>

theorem login_fails_and_heals_on_empty_lookup:
  "sign_in_with_password e st mail pw = AuthResponse (Some u) (Some s) \<and>
   au_id u \<notin> profile_ids st \<longrightarrow>
     (\<exists>m st'. sign_in_with_profile_check e mail pw st =
                 (Inl (PyException (''Sign in failed: '' @ m)), st')) \<and>
     (single_no_rows e = EmptyData \<and> store_faults e st (DeleteAuthUsers [au_id u]) = None \<longrightarrow>
        (\<exists>st'. sign_in_with_profile_check e mail pw st =
                 (Inl (PyException ''Sign in failed: User profile has been deleted. Please contact administrator.''), st') \<and>
               au_id u \<notin> user_ids st' \<and>
               find (\<lambda>x. uid x = au_id u) (auth_users st') = None))"
proof (intro impI conjI)
  assume h: "sign_in_with_password e st mail pw = AuthResponse (Some u) (Some s) \<and>
             au_id u \<notin> profile_ids st"
  with sign_in_try_fails_without_profile [of e st mail pw u s]
  obtain m st' where "sign_in_try e mail pw st = (Inl (PyException m), st')" by blast
  then show "\<exists>m st'. sign_in_with_profile_check e mail pw st =
                 (Inl (PyException (''Sign in failed: '' @ m)), st')"
    by (simp add: sign_in_with_profile_check_def)
next
  assume h: "sign_in_with_password e st mail pw = AuthResponse (Some u) (Some s) \<and>
             au_id u \<notin> profile_ids st"
    and c: "single_no_rows e = EmptyData \<and> store_faults e st (DeleteAuthUsers [au_id u]) = None"
  from h c sign_in_try_self_heal [of e st mail pw u s]
  have "sign_in_try e mail pw st =
           (Inl (PyException ''User profile has been deleted. Please contact administrator.''),
            st\<lparr>auth_users := filter (\<lambda>x. uid x \<noteq> au_id u) (auth_users st)\<rparr>)"
    by blast
  then show "\<exists>st'. sign_in_with_profile_check e mail pw st =
                 (Inl (PyException ''Sign in failed: User profile has been deleted. Please contact administrator.''), st') \<and>
               au_id u \<notin> user_ids st' \<and>
               find (\<lambda>x. uid x = au_id u) (auth_users st') = None"
    by (auto simp: sign_in_with_profile_check_def user_ids_def find_None_iff)
qed

text \<open>
  C4, witness, on the store with the foreign key: Bob's credentials are right, he has
  no profile and no row of \<open>system_logs\<close> names him; his login fails and his identity
  is deleted.
\<close>

theorem login_fails_and_heals_on_empty_lookup_witness:
  "sign_in_with_password (example_env EmptyData system_logs_fk) drifted_db ''bob@x.com'' ''secret-b'' =
     AuthResponse (Some \<lparr>au_id = 2, au_email = ''bob@x.com'', user_metadata = []\<rparr>)
       (Some \<lparr>access_token = ''access-bob@x.com'', refresh_token = ''refresh-bob@x.com'',
              expires_at = 3600\<rparr>) \<and>
   2 \<notin> profile_ids drifted_db \<and>
   single_no_rows (example_env EmptyData system_logs_fk) = EmptyData \<and>
   store_faults (example_env EmptyData system_logs_fk) drifted_db (DeleteAuthUsers [2]) = None \<and>
   (\<exists>m st'. sign_in_with_profile_check (example_env EmptyData system_logs_fk)
              ''bob@x.com'' ''secret-b'' drifted_db =
              (Inl (PyException (''Sign in failed: '' @ m)), st')) \<and>
   (\<exists>st'. sign_in_with_profile_check (example_env EmptyData system_logs_fk)
            ''bob@x.com'' ''secret-b'' drifted_db =
            (Inl (PyException ''Sign in failed: User profile has been deleted. Please contact administrator.''), st') \<and>
          2 \<notin> user_ids st' \<and> find (\<lambda>x. uid x = 2) (auth_users st') = None)"
proof -
  let ?e = "example_env EmptyData system_logs_fk"
  let ?u = "\<lparr>au_id = 2, au_email = ''bob@x.com'', user_metadata = []\<rparr>"
  let ?s = "\<lparr>access_token = ''access-bob@x.com'', refresh_token = ''refresh-bob@x.com'',
              expires_at = 3600\<rparr>"
  have a: "sign_in_with_password ?e drifted_db ''bob@x.com'' ''secret-b'' =
             AuthResponse (Some ?u) (Some ?s)"
    by (simp add: example_env_def password_provider_def drifted_db_def alice_def bob_def)
  have b: "au_id ?u \<notin> profile_ids drifted_db"
    by (simp add: profile_ids_def drifted_db_def alice_profile_def)
  have c: "single_no_rows ?e = EmptyData"
    by (simp add: example_env_def)
  have d: "store_faults ?e drifted_db (DeleteAuthUsers [au_id ?u]) = None"
    by (simp add: example_env_def system_logs_fk_def drifted_db_def)
  from login_fails_and_heals_on_empty_lookup [of ?e drifted_db "''bob@x.com''" "''secret-b''" ?u ?s] a b c d
  show ?thesis by simp
qed

text \<open>
  C4 as stated fails: the orphaned identity is not always deleted. When the lookup of
  Bob's profile raises \<open>No rows found\<close>, the login fails and Bob's identity stays; and
  when the lookup returns empty data but a row of \<open>system_logs\<close> names Bob, the delete
  of his identity is rejected by the foreign key, the login fails with that error and
  Bob's identity stays.
\<close>

theorem login_leaves_orphan_in_place:
  "sign_in_with_password (example_env (NoRowsError ''No rows found'') system_logs_fk) drifted_db
     ''bob@x.com'' ''secret-b'' =
     AuthResponse (Some \<lparr>au_id = 2, au_email = ''bob@x.com'', user_metadata = []\<rparr>)
       (Some \<lparr>access_token = ''access-bob@x.com'', refresh_token = ''refresh-bob@x.com'',
              expires_at = 3600\<rparr>) \<and>
   2 \<notin> profile_ids drifted_db \<and>
   sign_in_with_profile_check (example_env (NoRowsError ''No rows found'') system_logs_fk)
     ''bob@x.com'' ''secret-b'' drifted_db =
     (Inl (PyException ''Sign in failed: No rows found''), drifted_db) \<and>
   bob \<in> set (auth_users drifted_db) \<and>
   2 \<notin> profile_ids bob_named_in_log_db \<and>
   sign_in_with_profile_check (example_env EmptyData system_logs_fk)
     ''bob@x.com'' ''secret-b'' bob_named_in_log_db =
     (Inl (PyException ''Sign in failed: update or delete on table users violates foreign key constraint system_logs_user_id_fkey on table system_logs''),
      bob_named_in_log_db) \<and>
   bob \<in> set (auth_users bob_named_in_log_db)"
proof -
  have a: "sign_in_with_password (example_env (NoRowsError ''No rows found'') system_logs_fk) drifted_db
     ''bob@x.com'' ''secret-b'' =
     AuthResponse (Some \<lparr>au_id = 2, au_email = ''bob@x.com'', user_metadata = []\<rparr>)
       (Some \<lparr>access_token = ''access-bob@x.com'', refresh_token = ''refresh-bob@x.com'',
              expires_at = 3600\<rparr>)"
    by (simp add: example_env_def password_provider_def drifted_db_def alice_def bob_def)
  have b: "2 \<notin> profile_ids drifted_db" "2 \<notin> profile_ids bob_named_in_log_db"
    by (simp_all add: profile_ids_def drifted_db_def bob_named_in_log_db_def alice_profile_def)
  have c: "sign_in_with_profile_check (example_env (NoRowsError ''No rows found'') system_logs_fk)
     ''bob@x.com'' ''secret-b'' drifted_db =
     (Inl (PyException ''Sign in failed: No rows found''), drifted_db)"
    by code_simp
  have d: "sign_in_with_profile_check (example_env EmptyData system_logs_fk)
     ''bob@x.com'' ''secret-b'' bob_named_in_log_db =
     (Inl (PyException ''Sign in failed: update or delete on table users violates foreign key constraint system_logs_user_id_fkey on table system_logs''),
      bob_named_in_log_db)"
    by code_simp
  have e: "bob \<in> set (auth_users drifted_db)" "bob \<in> set (auth_users bob_named_in_log_db)"
    by (simp_all add: drifted_db_def bob_named_in_log_db_def)
  from a b c d e show ?thesis by simp
qed

text \<open>
  C5, as the code has it. Every failing login of the two kinds leaves \<open>login\<close> as an
  \<open>HTTPException\<close> with status 400 whose detail begins with \<open>Sign in failed: \<close>: a
  credential check that raises, one that returns no user or no session, and a valid
  credential whose identity has no profile. The rest of the detail is not the same: it is
  \<open>Invalid credentials\<close> when the check returns no user or no session, and it is
  \<open>User profile has been deleted. Please contact administrator.\<close> when the profile
  is missing, the lookup comes back with empty data and the store does not refuse the
  delete of the identity.
\<close>

theorem login_failures_share_status_not_detail:
  "(\<forall>m. sign_in_with_password e st mail pw = AuthRaised m \<longrightarrow>
      login e mail pw st = (Inl (HTTPException 400 (''Sign in failed: '' @ m)), st)) \<and>
   (\<forall>uo so. sign_in_with_password e st mail pw = AuthResponse uo so \<and> (uo = None \<or> so = None) \<longrightarrow>
      login e mail pw st = (Inl (HTTPException 400 ''Sign in failed: Invalid credentials''), st)) \<and>
   (\<forall>u s. sign_in_with_password e st mail' pw' = AuthResponse (Some u) (Some s) \<and>
          au_id u \<notin> profile_ids st \<longrightarrow>
      (\<exists>d st'. login e mail' pw' st =
                 (Inl (HTTPException 400 (''Sign in failed: '' @ d)), st')) \<and>
      (single_no_rows e = EmptyData \<and> store_faults e st (DeleteAuthUsers [au_id u]) = None \<longrightarrow>
         (\<exists>st'. login e mail' pw' st =
            (Inl (HTTPException 400
               ''Sign in failed: User profile has been deleted. Please contact administrator.''), st'))))"
proof (intro conjI allI impI)
  fix m assume "sign_in_with_password e st mail pw = AuthRaised m"
  then show "login e mail pw st = (Inl (HTTPException 400 (''Sign in failed: '' @ m)), st)"
    by (simp add: login_def sign_in_with_profile_check_def sign_in_try_def)
next
  fix uo so
  assume "sign_in_with_password e st mail pw = AuthResponse uo so \<and> (uo = None \<or> so = None)"
  then have "sign_in_try e mail pw st = (Inl (PyException ''Invalid credentials''), st)"
    using sign_in_try_bad_credential by blast
  then show "login e mail pw st = (Inl (HTTPException 400 ''Sign in failed: Invalid credentials''), st)"
    by (simp add: login_def sign_in_with_profile_check_def)
next
  fix u s
  assume h: "sign_in_with_password e st mail' pw' = AuthResponse (Some u) (Some s) \<and>
          au_id u \<notin> profile_ids st"
  with sign_in_try_fails_without_profile [of e st mail' pw' u s]
  obtain m st' where "sign_in_try e mail' pw' st = (Inl (PyException m), st')" by blast
  then show "\<exists>d st'. login e mail' pw' st =
                 (Inl (HTTPException 400 (''Sign in failed: '' @ d)), st')"
    by (simp add: login_def sign_in_with_profile_check_def)
next
  fix u s
  assume h: "sign_in_with_password e st mail' pw' = AuthResponse (Some u) (Some s) \<and>
          au_id u \<notin> profile_ids st"
    and c: "single_no_rows e = EmptyData \<and> store_faults e st (DeleteAuthUsers [au_id u]) = None"
  from h c sign_in_try_self_heal [of e st mail' pw' u s]
  have "sign_in_try e mail' pw' st =
           (Inl (PyException ''User profile has been deleted. Please contact administrator.''),
            st\<lparr>auth_users := filter (\<lambda>x. uid x \<noteq> au_id u) (auth_users st)\<rparr>)"
    by blast
  then show "\<exists>st'. login e mail' pw' st =
            (Inl (HTTPException 400
               ''Sign in failed: User profile has been deleted. Please contact administrator.''), st')"
    by (simp add: login_def sign_in_with_profile_check_def)
qed

text \<open>
  C5, witness, on the store with the foreign key: a wrong password for Bob, with a
  provider that raises and with one that returns an empty response, and Bob's right
  password while he has no profile.
\<close>

theorem login_failures_share_status_not_detail_witness:
  "sign_in_with_password (raising_env EmptyData system_logs_fk) drifted_db ''bob@x.com'' ''wrong'' =
     AuthRaised ''Invalid login credentials'' \<and>
   login (raising_env EmptyData system_logs_fk) ''bob@x.com'' ''wrong'' drifted_db =
     (Inl (HTTPException 400 ''Sign in failed: Invalid login credentials''), drifted_db) \<and>
   sign_in_with_password (example_env EmptyData system_logs_fk) drifted_db ''bob@x.com'' ''wrong'' =
     AuthResponse None None \<and>
   login (example_env EmptyData system_logs_fk) ''bob@x.com'' ''wrong'' drifted_db =
     (Inl (HTTPException 400 ''Sign in failed: Invalid credentials''), drifted_db) \<and>
   sign_in_with_password (example_env EmptyData system_logs_fk) drifted_db ''bob@x.com'' ''secret-b'' =
     AuthResponse (Some \<lparr>au_id = 2, au_email = ''bob@x.com'', user_metadata = []\<rparr>)
       (Some \<lparr>access_token = ''access-bob@x.com'', refresh_token = ''refresh-bob@x.com'',
              expires_at = 3600\<rparr>) \<and>
   2 \<notin> profile_ids drifted_db \<and>
   single_no_rows (example_env EmptyData system_logs_fk) = EmptyData \<and>
   store_faults (example_env EmptyData system_logs_fk) drifted_db (DeleteAuthUsers [2]) = None \<and>
   (\<exists>d st'. login (example_env EmptyData system_logs_fk) ''bob@x.com'' ''secret-b'' drifted_db =
      (Inl (HTTPException 400 (''Sign in failed: '' @ d)), st')) \<and>
   (\<exists>st'. login (example_env EmptyData system_logs_fk) ''bob@x.com'' ''secret-b'' drifted_db =
      (Inl (HTTPException 400
         ''Sign in failed: User profile has been deleted. Please contact administrator.''), st'))"
proof -
  let ?e = "example_env EmptyData system_logs_fk"
  let ?r = "raising_env EmptyData system_logs_fk"
  let ?u = "\<lparr>au_id = 2, au_email = ''bob@x.com'', user_metadata = []\<rparr>"
  let ?s = "\<lparr>access_token = ''access-bob@x.com'', refresh_token = ''refresh-bob@x.com'',
              expires_at = 3600\<rparr>"
  have raised: "sign_in_with_password ?r drifted_db ''bob@x.com'' ''wrong'' =
                  AuthRaised ''Invalid login credentials''"
    by (simp add: raising_env_def raising_password_provider_def password_provider_def
          drifted_db_def alice_def bob_def)
  have bad: "sign_in_with_password ?e drifted_db ''bob@x.com'' ''wrong'' = AuthResponse None None"
    by (simp add: example_env_def password_provider_def drifted_db_def alice_def bob_def)
  have a: "sign_in_with_password ?e drifted_db ''bob@x.com'' ''secret-b'' =
             AuthResponse (Some ?u) (Some ?s)"
    by (simp add: example_env_def password_provider_def drifted_db_def alice_def bob_def)
  have b: "au_id ?u \<notin> profile_ids drifted_db"
    by (simp add: profile_ids_def drifted_db_def alice_profile_def)
  have c: "single_no_rows ?e = EmptyData"
    by (simp add: example_env_def)
  have d: "store_faults ?e drifted_db (DeleteAuthUsers [au_id ?u]) = None"
    by (simp add: example_env_def system_logs_fk_def drifted_db_def)
  from login_failures_share_status_not_detail [of ?r drifted_db "''bob@x.com''" "''wrong''"] raised
  have zero: "login ?r ''bob@x.com'' ''wrong'' drifted_db =
     (Inl (HTTPException 400 ''Sign in failed: Invalid login credentials''), drifted_db)"
    by simp
  note main = login_failures_share_status_not_detail
                [of ?e drifted_db "''bob@x.com''" "''wrong''" "''bob@x.com''" "''secret-b''"]
  from main bad have first: "login ?e ''bob@x.com'' ''wrong'' drifted_db =
     (Inl (HTTPException 400 ''Sign in failed: Invalid credentials''), drifted_db)"
    by blast
  from main a b have second: "\<exists>d st'. login ?e ''bob@x.com'' ''secret-b'' drifted_db =
      (Inl (HTTPException 400 (''Sign in failed: '' @ d)), st')"
    by blast
  from main a b c d have third: "\<exists>st'. login ?e ''bob@x.com'' ''secret-b'' drifted_db =
      (Inl (HTTPException 400
         ''Sign in failed: User profile has been deleted. Please contact administrator.''), st')"
    by blast
  from raised zero bad first a b c d second third show ?thesis by simp
qed

text \<open>
  C5 as stated fails: the two messages are not the same. On the store with the foreign
  key, for Bob, who has no profile, a wrong password is answered with
  \<open>Sign in failed: Invalid credentials\<close> and the right password with
  \<open>Sign in failed: User profile has been deleted. Please contact administrator.\<close>
\<close>

theorem login_failure_messages_differ:
  "fst (login (example_env EmptyData system_logs_fk) ''bob@x.com'' ''wrong'' drifted_db) =
     Inl (HTTPException 400 ''Sign in failed: Invalid credentials'') \<and>
   fst (login (example_env EmptyData system_logs_fk) ''bob@x.com'' ''secret-b'' drifted_db) =
     Inl (HTTPException 400
       ''Sign in failed: User profile has been deleted. Please contact administrator.'') \<and>
   fst (login (example_env EmptyData system_logs_fk) ''bob@x.com'' ''wrong'' drifted_db) \<noteq>
   fst (login (example_env EmptyData system_logs_fk) ''bob@x.com'' ''secret-b'' drifted_db)"
proof -
  have a: "fst (login (example_env EmptyData system_logs_fk) ''bob@x.com'' ''wrong'' drifted_db) =
     Inl (HTTPException 400 ''Sign in failed: Invalid credentials'')"
    by code_simp
  have b: "fst (login (example_env EmptyData system_logs_fk) ''bob@x.com'' ''secret-b'' drifted_db) =
     Inl (HTTPException 400
       ''Sign in failed: User profile has been deleted. Please contact administrator.'')"
    by code_simp
  show ?thesis unfolding a b by simp
qed

section \<open>The request guard\<close>

lemma own_403_is_not_no_rows:
  "\<not> occurs_in ''No rows found''
       (str_exc (HTTPException 403 ''Your profile has been deleted. Access denied.''))"
  by code_simp

lemma guard_with_valid_token:
  assumes "a \<noteq> []" and "split a = [scheme, token]" and "lower scheme = ''bearer''"
    and "get_user e token = Some user"
  shows "verify_user_profile e (Some a) st =
           (case profile_check_try e user st of
              Inr u \<Rightarrow> Inr u
            | Inl ex \<Rightarrow>
                if occurs_in ''No rows found'' (str_exc ex)
                then Inl (HTTPException 403 ''Your profile has been deleted. Access denied.'')
                else Inl (HTTPException 500 ''Database error''))"
  using assms by (simp add: verify_user_profile_def)

text \<open>
  With a valid token and a profile row, the guard returns the user with the profile
  attached.
\<close>

lemma guard_attaches_profile:
  assumes "a \<noteq> []" and "split a = [scheme, token]" and "lower scheme = ''bearer''"
    and "get_user e token = Some user"
    and "find (\<lambda>r. pid r = ud_id user) (teacher_profiles st) = Some p"
  shows "verify_user_profile e (Some a) st = Inr (user\<lparr>ud_profile := Some p\<rparr>)"
  using assms(5)
  by (simp add: guard_with_valid_token [OF assms(1-4)] profile_check_try_def
        select_single_profile_def)

text \<open>
  With a valid token and no profile row, the answer depends on how the missing row is
  reported: an exception whose text contains \<open>No rows found\<close> becomes the 403; empty
  data raises the 403 inside the \<open>try\<close>, where the function's own
  \<open>except Exception\<close> catches it and answers 500.
\<close>

lemma guard_no_rows_exception_is_403:
  assumes "a \<noteq> []" and "split a = [scheme, token]" and "lower scheme = ''bearer''"
    and "get_user e token = Some user"
    and "ud_id user \<notin> profile_ids st"
    and "single_no_rows e = NoRowsError m" and "occurs_in ''No rows found'' m"
  shows "verify_user_profile e (Some a) st =
           Inl (HTTPException 403 ''Your profile has been deleted. Access denied.'')"
  using assms(6,7)
  by (simp add: guard_with_valid_token [OF assms(1-4)] profile_check_try_def
        select_single_profile_absent [OF assms(5)])

lemma guard_empty_data_is_500:
  assumes "a \<noteq> []" and "split a = [scheme, token]" and "lower scheme = ''bearer''"
    and "get_user e token = Some user"
    and "ud_id user \<notin> profile_ids st"
    and "single_no_rows e = EmptyData"
  shows "verify_user_profile e (Some a) st = Inl (HTTPException 500 ''Database error'')"
  using assms(6) own_403_is_not_no_rows
  by (simp add: guard_with_valid_token [OF assms(1-4)] profile_check_try_def
        select_single_profile_absent [OF assms(5)])

text \<open>
  C2 on the code. Bob's token is valid and Bob has no profile; the lookup returns empty
  data. The guard answers 500 \<open>Database error\<close>, not the 403 it raised first. Alice,
  who has a profile, is returned with it, and a token that is not known is answered 401.
\<close>

theorem request_guard_answers_500_for_missing_profile:
  "verify_user_profile (example_env EmptyData no_faults)
     (Some ''Bearer access-bob@x.com'') drifted_db =
     Inl (HTTPException 500 ''Database error'') \<and>
   verify_user_profile (example_env EmptyData no_faults)
     (Some ''Bearer access-alice@x.com'') drifted_db =
     Inr \<lparr>ud_id = 1, ud_fields = [(''email'', ''alice@x.com'')],
          ud_profile = Some alice_profile\<rparr> \<and>
   verify_user_profile (example_env EmptyData no_faults)
     (Some ''Bearer expired'') drifted_db =
     Inl (HTTPException 401 ''Invalid or expired token'')"
proof -
  have a: "verify_user_profile (example_env EmptyData no_faults)
     (Some ''Bearer access-bob@x.com'') drifted_db =
     Inl (HTTPException 500 ''Database error'')"
    by code_simp
  have b: "verify_user_profile (example_env EmptyData no_faults)
     (Some ''Bearer access-alice@x.com'') drifted_db =
     Inr \<lparr>ud_id = 1, ud_fields = [(''email'', ''alice@x.com'')],
          ud_profile = Some alice_profile\<rparr>"
    by code_simp
  have c: "verify_user_profile (example_env EmptyData no_faults)
     (Some ''Bearer expired'') drifted_db =
     Inl (HTTPException 401 ''Invalid or expired token'')"
    by code_simp
  from a b c show ?thesis by simp
qed

section \<open>The signup trigger\<close>

text \<open>
  C9. When the provider inserts a new identity, the signup trigger either creates the
  profile, whose \<open>full_name\<close> is the \<open>full_name\<close> of the signup metadata and, when
  the metadata has none, the email of the identity; or the insert of the profile failed,
  for whatever reason, and then the failure is caught: one warning is raised, nothing of
  the failed insert is kept, and the insert of the identity completes all the same, so
  that the row of \<open>auth.users\<close> exists afterwards in both cases.
\<close>

theorem signup_hook_defaults_name_and_fails_open:
  "uid NEW \<notin> user_ids st \<and> f st (InsertAuthUser NEW) = None \<longrightarrow>
     (\<exists>st' ws. insert_into_auth_users f NEW st = Inr (st', ws) \<and>
        auth_users st' = auth_users st @ [NEW] \<and>
        ((ws = [] \<and>
          (\<exists>row \<in> set (teacher_profiles st'). pid row = uid NEW \<and>
             Some (full_name row) =
               (case map_of (raw_user_meta_data NEW) ''full_name'' of
                  None \<Rightarrow> user_email NEW
                | Some n \<Rightarrow> Some n))) \<or>
         (\<exists>m. ws = [''Failed to create teacher profile: '' @ m] \<and>
              teacher_profiles st' = teacher_profiles st \<and>
              system_logs st' = system_logs st)))"
proof
  assume h: "uid NEW \<notin> user_ids st \<and> f st (InsertAuthUser NEW) = None"
  let ?st1 = "st\<lparr>auth_users := auth_users st @ [NEW]\<rparr>"
  from h have run: "insert_into_auth_users f NEW st =
                      Inr (create_teacher_profile_on_signup f NEW ?st1)"
    by (simp add: insert_into_auth_users_def)
  show "\<exists>st' ws. insert_into_auth_users f NEW st = Inr (st', ws) \<and>
        auth_users st' = auth_users st @ [NEW] \<and>
        ((ws = [] \<and>
          (\<exists>row \<in> set (teacher_profiles st'). pid row = uid NEW \<and>
             Some (full_name row) =
               (case map_of (raw_user_meta_data NEW) ''full_name'' of
                  None \<Rightarrow> user_email NEW
                | Some n \<Rightarrow> Some n))) \<or>
         (\<exists>m. ws = [''Failed to create teacher profile: '' @ m] \<and>
              teacher_profiles st' = teacher_profiles st \<and>
              system_logs st' = system_logs st))"
  proof (cases "signup_insert f NEW ?st1")
    case (Inl e)
    then have "create_teacher_profile_on_signup f NEW ?st1 =
                 (?st1, [''Failed to create teacher profile: '' @ sqlerrm e])"
      by (simp add: create_teacher_profile_on_signup_def)
    with run show ?thesis by auto
  next
    case (Inr st2)
    then have c: "create_teacher_profile_on_signup f NEW ?st1 = (st2, [])"
      by (simp add: create_teacher_profile_on_signup_def)
    from signup_insert_Inr [OF Inr] obtain n e where
      n: "coalesce (map_of (raw_user_meta_data NEW) ''full_name'') (user_email NEW) = Some n" and
      au: "auth_users st2 = auth_users ?st1" and
      tp: "teacher_profiles st2 = teacher_profiles ?st1 @
             [\<lparr>pid = uid NEW, full_name = n, email = e, phone = None, department = None,
               designation = None, specialization = None, is_active = True\<rparr>]"
      by blast
    from n have "Some n = (case map_of (raw_user_meta_data NEW) ''full_name'' of
                  None \<Rightarrow> user_email NEW | Some n \<Rightarrow> Some n)"
      by (simp add: coalesce_def split: option.splits)
    with run c au tp show ?thesis by auto
  qed
qed

text \<open>
  C9, witness: Bob signs up without a name. Without faults his profile is created under
  his email; when the insert of the profile is refused, he has a warning and an
  identity without a profile.
\<close>

theorem signup_hook_defaults_name_and_fails_open_witness:
  "uid bob \<notin> user_ids empty_db \<and>
   no_faults empty_db (InsertAuthUser bob) = None \<and>
   refuse_profile_insert empty_db (InsertAuthUser bob) = None \<and>
   (\<exists>st'. insert_into_auth_users no_faults bob empty_db = Inr (st', []) \<and>
      auth_users st' = auth_users empty_db @ [bob] \<and>
      (\<exists>row \<in> set (teacher_profiles st'). pid row = uid bob \<and>
          Some (full_name row) = user_email bob)) \<and>
   (\<exists>st' m. insert_into_auth_users refuse_profile_insert bob empty_db =
              Inr (st', [''Failed to create teacher profile: '' @ m]) \<and>
      auth_users st' = auth_users empty_db @ [bob] \<and>
      teacher_profiles st' = teacher_profiles empty_db)"
proof -
  have fresh: "uid bob \<notin> user_ids empty_db"
    by (simp add: user_ids_def empty_db_def)
  have ok1: "no_faults empty_db (InsertAuthUser bob) = None"
    by (simp add: no_faults_def)
  have ok2: "refuse_profile_insert empty_db (InsertAuthUser bob) = None"
    by (simp add: refuse_profile_insert_def)
  have noname: "map_of (raw_user_meta_data bob) ''full_name'' = None"
    by (simp add: bob_def)
  have created: "snd (projr (insert_into_auth_users no_faults bob empty_db)) = []"
    by (simp add: insert_into_auth_users_def create_teacher_profile_on_signup_def
          signup_insert_def insert_into_teacher_profiles_def insert_into_system_logs_def
          coalesce_def no_faults_def empty_db_def bob_def user_ids_def profile_ids_def)
  have refused: "snd (projr (insert_into_auth_users refuse_profile_insert bob empty_db)) \<noteq> []"
    by (simp add: insert_into_auth_users_def create_teacher_profile_on_signup_def
          signup_insert_def insert_into_teacher_profiles_def
          coalesce_def refuse_profile_insert_def empty_db_def bob_def user_ids_def)
  from signup_hook_defaults_name_and_fails_open [of bob empty_db no_faults] fresh ok1
  obtain st1 ws1 where
    r1: "insert_into_auth_users no_faults bob empty_db = Inr (st1, ws1)" and
    a1: "auth_users st1 = auth_users empty_db @ [bob]" and
    d1: "(ws1 = [] \<and>
          (\<exists>row \<in> set (teacher_profiles st1). pid row = uid bob \<and>
             Some (full_name row) =
               (case map_of (raw_user_meta_data bob) ''full_name'' of
                  None \<Rightarrow> user_email bob
                | Some n \<Rightarrow> Some n))) \<or>
         (\<exists>m. ws1 = [''Failed to create teacher profile: '' @ m] \<and>
              teacher_profiles st1 = teacher_profiles empty_db \<and>
              system_logs st1 = system_logs empty_db)"
    by blast
  from created r1 have "ws1 = []" by simp
  with d1 noname have p1: "\<exists>row \<in> set (teacher_profiles st1). pid row = uid bob \<and>
          Some (full_name row) = user_email bob"
    by auto
  from signup_hook_defaults_name_and_fails_open [of bob empty_db refuse_profile_insert] fresh ok2
  obtain st2 ws2 where
    r2: "insert_into_auth_users refuse_profile_insert bob empty_db = Inr (st2, ws2)" and
    a2: "auth_users st2 = auth_users empty_db @ [bob]" and
    d2: "(ws2 = [] \<and>
          (\<exists>row \<in> set (teacher_profiles st2). pid row = uid bob \<and>
             Some (full_name row) =
               (case map_of (raw_user_meta_data bob) ''full_name'' of
                  None \<Rightarrow> user_email bob
                | Some n \<Rightarrow> Some n))) \<or>
         (\<exists>m. ws2 = [''Failed to create teacher profile: '' @ m] \<and>
              teacher_profiles st2 = teacher_profiles empty_db \<and>
              system_logs st2 = system_logs empty_db)"
    by blast
  from refused r2 have "ws2 \<noteq> []" by simp
  with d2 obtain m where
    w2: "ws2 = [''Failed to create teacher profile: '' @ m]" and
    t2: "teacher_profiles st2 = teacher_profiles empty_db"
    by blast
  from r1 \<open>ws1 = []\<close> a1 p1 have first:
    "\<exists>st'. insert_into_auth_users no_faults bob empty_db = Inr (st', []) \<and>
      auth_users st' = auth_users empty_db @ [bob] \<and>
      (\<exists>row \<in> set (teacher_profiles st'). pid row = uid bob \<and>
          Some (full_name row) = user_email bob)"
    by blast
  from r2 w2 a2 t2 have second:
    "\<exists>st' m. insert_into_auth_users refuse_profile_insert bob empty_db =
              Inr (st', [''Failed to create teacher profile: '' @ m]) \<and>
      auth_users st' = auth_users empty_db @ [bob] \<and>
      teacher_profiles st' = teacher_profiles empty_db"
    by blast
  from fresh ok1 ok2 first second show ?thesis by blast
qed

section \<open>The foreign key of teacher_profiles\<close>



end
